theory Spec2Isabelle
  imports Complex_Main "HOL-Library.Multiset" "HOL-Library.Product_Lexorder"
begin

section \<open>Numbers\<close>

text \<open>
  The program computes with JavaScript numbers. A finite number is modelled by a real:
  the arithmetic of the model is exact, rounding to a double is not modelled, and the two
  zeros of the source are one. The values that are not finite are modelled where the source
  produces or tests them: \<^verbatim>\<open>averageMileage\<close> is the result of \<^verbatim>\<open>parseFloat\<close> on a form
  field and may be \<^verbatim>\<open>NaN\<close>, and the sort comparators substitute \<^verbatim>\<open>Infinity\<close> for a
  falsy distance and subtract such keys. Coordinates (read from the mapping service or from
  the constants), prices (computed from the constants) and the costs of the history entries
  that the aggregator sums (read back from JSON, which has no text for a number that is not
  finite) are reals. Two functions are modelled a second time on all numbers, where a claim
  is about their exact results: \<open>calculateDistanceIn\<close>, in a double arithmetic whose
  rounding is a parameter, and \<open>handleSaveTrip\<close>, which serialises whatever numbers the
  trip result holds.
\<close>

datatype jsnum = NaN | NegInf | Fin real | PosInf

text \<open>\<^verbatim>\<open>x > y\<close> and \<^verbatim>\<open>x < y\<close>: every comparison with \<^verbatim>\<open>NaN\<close> is false.\<close>

fun js_lt :: "jsnum \<Rightarrow> jsnum \<Rightarrow> bool" where
  "js_lt NaN _ = False"
| "js_lt _ NaN = False"
| "js_lt NegInf NegInf = False"
| "js_lt NegInf _ = True"
| "js_lt (Fin a) NegInf = False"
| "js_lt (Fin a) (Fin b) = (a < b)"
| "js_lt (Fin a) PosInf = True"
| "js_lt PosInf _ = False"

definition js_gt :: "jsnum \<Rightarrow> jsnum \<Rightarrow> bool" where
  "js_gt x y = js_lt y x"

text \<open>\<^verbatim>\<open>x - y\<close>: the difference of two equal infinities is \<^verbatim>\<open>NaN\<close>.\<close>

fun js_sub :: "jsnum \<Rightarrow> jsnum \<Rightarrow> jsnum" where
  "js_sub NaN _ = NaN"
| "js_sub _ NaN = NaN"
| "js_sub (Fin a) (Fin b) = Fin (a - b)"
| "js_sub (Fin a) PosInf = NegInf"
| "js_sub (Fin a) NegInf = PosInf"
| "js_sub PosInf PosInf = NaN"
| "js_sub PosInf _ = PosInf"
| "js_sub NegInf NegInf = NaN"
| "js_sub NegInf _ = NegInf"

text \<open>
  \<^verbatim>\<open>Math.atan2(y, x)\<close> on finite arguments, by the quadrant of the point \<open>(x, y)\<close>.
\<close>

definition atan2 :: "real \<Rightarrow> real \<Rightarrow> real" where
  "atan2 y x =
     (if 0 < x then arctan (y / x)
      else if x < 0 then (if 0 \<le> y then arctan (y / x) + pi else arctan (y / x) - pi)
      else if 0 < y then pi / 2
      else if y < 0 then - (pi / 2)
      else 0)"

section \<open>Data model (types.ts)\<close>

datatype FuelType = PETROL | DIESEL | HYBRID | EV

text \<open>
  Field names are those of the interfaces; a name that several interfaces share
  (\<^verbatim>\<open>name\<close>, \<^verbatim>\<open>id\<close>, \<^verbatim>\<open>distanceKm\<close>, \<^verbatim>\<open>carModel\<close>, \<^verbatim>\<open>estimatedCost\<close>) carries the
  interface as a prefix. An optional field is an \<open>option\<close>.
\<close>

record Location =
  lat :: real
  lng :: real
  loc_name :: "string option"

record TripData =
  carModel :: string
  fuelType :: FuelType
  averageMileage :: jsnum
  startLocation :: Location
  destination :: Location
  preferredSpeedRange :: "string option"

record FuelStation =
  station_id :: string
  station_name :: string
  location :: Location
  fuelPrice :: real
  distanceKm :: "real option"

text \<open>
  \<open>'n\<close> is the type of the numbers of a trip result and of a history entry: \<^typ>\<open>real\<close>
  where the model computes them, \<^typ>\<open>jsnum\<close> where any number may arrive.
\<close>

record 'n TripResult =
  tripData :: TripData
  trip_distanceKm :: 'n
  estimatedCost :: 'n
  estimatedTime :: string
  ecoTips :: "string list"
  nearbyStations :: "FuelStation list"
  routePath :: "(real \<times> real) list"

record 'n TripHistoryEntry =
  entry_id :: string
  date :: string
  entry_carModel :: string
  startLocationName :: string
  destinationName :: string
  entry_distanceKm :: 'n
  entry_estimatedCost :: 'n

record MonthlyExpense =
  month :: string
  cost :: real

section \<open>Geo-distance (index.tsx, calculateDistance)\<close>

definition toRad :: "real \<Rightarrow> real" where
  "toRad v = (v * pi) / 180"

text \<open>The value \<^verbatim>\<open>a\<close> of the source, the haversine of the central angle.\<close>

definition hav_a :: "Location \<Rightarrow> Location \<Rightarrow> real" where
  "hav_a loc1 loc2 =
     (let dLat = toRad (lat loc2 - lat loc1);
          dLon = toRad (lng loc2 - lng loc1);
          lat1 = toRad (lat loc1);
          lat2 = toRad (lat loc2)
      in sin (dLat / 2) * sin (dLat / 2) +
         sin (dLon / 2) * sin (dLon / 2) * cos lat1 * cos lat2)"

text \<open>
  \<^verbatim>\<open>Math.sqrt\<close> gives \<^verbatim>\<open>NaN\<close> below zero where \<^const>\<open>sqrt\<close> gives a negative real; the
  lemma \<open>hav_a_range\<close> below shows that both square roots of \<open>calculateDistance\<close> are
  taken of values in \<open>[0, 1]\<close>, where the two agree.
\<close>

definition calculateDistance :: "Location \<Rightarrow> Location \<Rightarrow> real" where
  "calculateDistance loc1 loc2 =
     (let R = 6371;
          a = hav_a loc1 loc2;
          c = 2 * atan2 (sqrt a) (sqrt (1 - a))
      in R * c)"

section \<open>Geo-distance in double arithmetic (index.tsx, calculateDistance)\<close>

text \<open>
  The same function on all numbers, in the arithmetic of doubles. What the language
  leaves to the implementation is a parameter: \<open>rnd\<close> rounds the exact result of an
  operation to a double (an infinity on overflow), \<open>a_PI\<close> is \<^verbatim>\<open>Math.PI\<close>, and
  \<open>a_sin\<close>, \<open>a_cos\<close>, \<open>a_sqrt\<close>, \<open>a_atan2\<close> are the values of the \<^verbatim>\<open>Math\<close> functions
  where they are approximated. What the language fixes is in the definitions: the
  results of \<^verbatim>\<open>+ - * /\<close> on \<^verbatim>\<open>NaN\<close> and on the infinities, and the results of the
  \<^verbatim>\<open>Math\<close> functions on them. The sign of a zero is not modelled (a quotient by zero
  takes the zero as positive).
\<close>

record Arith =
  rnd :: "real \<Rightarrow> jsnum"
  a_PI :: real
  a_sin :: "real \<Rightarrow> real"
  a_cos :: "real \<Rightarrow> real"
  a_sqrt :: "real \<Rightarrow> real"
  a_atan2 :: "jsnum \<Rightarrow> jsnum \<Rightarrow> real"

fun js_add :: "jsnum \<Rightarrow> jsnum \<Rightarrow> jsnum" where
  "js_add NaN _ = NaN"
| "js_add _ NaN = NaN"
| "js_add (Fin a) (Fin b) = Fin (a + b)"
| "js_add (Fin a) PosInf = PosInf"
| "js_add (Fin a) NegInf = NegInf"
| "js_add PosInf NegInf = NaN"
| "js_add PosInf _ = PosInf"
| "js_add NegInf PosInf = NaN"
| "js_add NegInf _ = NegInf"

fun js_mul :: "jsnum \<Rightarrow> jsnum \<Rightarrow> jsnum" where
  "js_mul NaN _ = NaN"
| "js_mul _ NaN = NaN"
| "js_mul (Fin a) (Fin b) = Fin (a * b)"
| "js_mul (Fin a) PosInf = (if a = 0 then NaN else if 0 < a then PosInf else NegInf)"
| "js_mul (Fin a) NegInf = (if a = 0 then NaN else if 0 < a then NegInf else PosInf)"
| "js_mul PosInf (Fin b) = (if b = 0 then NaN else if 0 < b then PosInf else NegInf)"
| "js_mul NegInf (Fin b) = (if b = 0 then NaN else if 0 < b then NegInf else PosInf)"
| "js_mul PosInf PosInf = PosInf"
| "js_mul PosInf NegInf = NegInf"
| "js_mul NegInf PosInf = NegInf"
| "js_mul NegInf NegInf = PosInf"

fun js_div :: "jsnum \<Rightarrow> jsnum \<Rightarrow> jsnum" where
  "js_div NaN _ = NaN"
| "js_div _ NaN = NaN"
| "js_div (Fin a) (Fin b) =
     (if b = 0 then (if a = 0 then NaN else if 0 < a then PosInf else NegInf) else Fin (a / b))"
| "js_div (Fin a) _ = Fin 0"
| "js_div PosInf (Fin b) = (if b < 0 then NegInf else PosInf)"
| "js_div NegInf (Fin b) = (if b < 0 then PosInf else NegInf)"
| "js_div _ _ = NaN"

text \<open>The result of an operation: the exact result, rounded when it is finite.\<close>

definition fl :: "Arith \<Rightarrow> jsnum \<Rightarrow> jsnum" where
  "fl ar x = (case x of Fin r \<Rightarrow> rnd ar r | _ \<Rightarrow> x)"

definition fl_add :: "Arith \<Rightarrow> jsnum \<Rightarrow> jsnum \<Rightarrow> jsnum" where
  "fl_add ar x y = fl ar (js_add x y)"

definition fl_sub :: "Arith \<Rightarrow> jsnum \<Rightarrow> jsnum \<Rightarrow> jsnum" where
  "fl_sub ar x y = fl ar (js_sub x y)"

definition fl_mul :: "Arith \<Rightarrow> jsnum \<Rightarrow> jsnum \<Rightarrow> jsnum" where
  "fl_mul ar x y = fl ar (js_mul x y)"

definition fl_div :: "Arith \<Rightarrow> jsnum \<Rightarrow> jsnum \<Rightarrow> jsnum" where
  "fl_div ar x y = fl ar (js_div x y)"

text \<open>
  \<^verbatim>\<open>Math.sin\<close> and \<^verbatim>\<open>Math.cos\<close> are \<^verbatim>\<open>NaN\<close> on \<^verbatim>\<open>NaN\<close> and on the infinities;
  \<^verbatim>\<open>Math.sqrt\<close> is \<^verbatim>\<open>NaN\<close> on \<^verbatim>\<open>NaN\<close> and below zero and \<^verbatim>\<open>Infinity\<close> on
  \<^verbatim>\<open>Infinity\<close>; \<^verbatim>\<open>Math.atan2\<close> is \<^verbatim>\<open>NaN\<close> when an argument is and a finite number
  otherwise.
\<close>

definition m_sin :: "Arith \<Rightarrow> jsnum \<Rightarrow> jsnum" where
  "m_sin ar x = (case x of Fin r \<Rightarrow> Fin (a_sin ar r) | _ \<Rightarrow> NaN)"

definition m_cos :: "Arith \<Rightarrow> jsnum \<Rightarrow> jsnum" where
  "m_cos ar x = (case x of Fin r \<Rightarrow> Fin (a_cos ar r) | _ \<Rightarrow> NaN)"

definition m_sqrt :: "Arith \<Rightarrow> jsnum \<Rightarrow> jsnum" where
  "m_sqrt ar x =
     (case x of Fin r \<Rightarrow> if r < 0 then NaN else Fin (a_sqrt ar r) | PosInf \<Rightarrow> PosInf | _ \<Rightarrow> NaN)"

definition m_atan2 :: "Arith \<Rightarrow> jsnum \<Rightarrow> jsnum \<Rightarrow> jsnum" where
  "m_atan2 ar y x = (if y = NaN \<or> x = NaN then NaN else Fin (a_atan2 ar y x))"

text \<open>A location whose numbers are any numbers; the name is not read.\<close>

record NumLocation =
  nlat :: jsnum
  nlng :: jsnum

definition toRadIn :: "Arith \<Rightarrow> jsnum \<Rightarrow> jsnum" where
  "toRadIn ar v = fl_div ar (fl_mul ar v (Fin (a_PI ar))) (Fin 180)"

definition calculateDistanceIn :: "Arith \<Rightarrow> NumLocation \<Rightarrow> NumLocation \<Rightarrow> jsnum" where
  "calculateDistanceIn ar loc1 loc2 =
     (let R = Fin 6371;
          dLat = toRadIn ar (fl_sub ar (nlat loc2) (nlat loc1));
          dLon = toRadIn ar (fl_sub ar (nlng loc2) (nlng loc1));
          lat1 = toRadIn ar (nlat loc1);
          lat2 = toRadIn ar (nlat loc2);
          a = fl_add ar
                (fl_mul ar (m_sin ar (fl_div ar dLat (Fin 2))) (m_sin ar (fl_div ar dLat (Fin 2))))
                (fl_mul ar
                   (fl_mul ar
                      (fl_mul ar (m_sin ar (fl_div ar dLon (Fin 2))) (m_sin ar (fl_div ar dLon (Fin 2))))
                      (m_cos ar lat1))
                   (m_cos ar lat2));
          c = fl_mul ar (Fin 2) (m_atan2 ar (m_sqrt ar a) (m_sqrt ar (fl_sub ar (Fin 1) a)))
      in fl_mul ar R c)"

text \<open>\<^verbatim>\<open>x == y\<close> and \<^verbatim>\<open>x <= y\<close> on numbers: false when an operand is \<^verbatim>\<open>NaN\<close>.\<close>

definition js_eq :: "jsnum \<Rightarrow> jsnum \<Rightarrow> bool" where
  "js_eq x y = (x \<noteq> NaN \<and> y \<noteq> NaN \<and> x = y)"

definition js_le :: "jsnum \<Rightarrow> jsnum \<Rightarrow> bool" where
  "js_le x y = (x \<noteq> NaN \<and> y \<noteq> NaN \<and> \<not> js_lt y x)"

text \<open>
  What is assumed of the arithmetic, all of it true of IEEE doubles and of a runtime
  that follows the language: every integer up to \<open>2\<^sup>5\<^sup>3\<close> in magnitude is a double, and
  rounding is monotone; \<^verbatim>\<open>Math.PI\<close> lies between 0 and 4; \<^verbatim>\<open>Math.sin(0)\<close> and
  \<^verbatim>\<open>Math.sqrt(0)\<close> are 0, and the square root of a positive number is positive;
  \<^verbatim>\<open>Math.atan2(0, x)\<close> is 0 for a positive \<open>x\<close>, and \<^verbatim>\<open>Math.atan2\<close> of two arguments that
  are not negative lies between 0 and 2.
\<close>

definition nonneg :: "jsnum \<Rightarrow> bool" where
  "nonneg x = (case x of Fin r \<Rightarrow> 0 \<le> r | PosInf \<Rightarrow> True | _ \<Rightarrow> False)"

definition ieee :: "Arith \<Rightarrow> bool" where
  "ieee ar \<longleftrightarrow>
     (\<forall>n::int. \<bar>n\<bar> \<le> 2 ^ 53 \<longrightarrow> rnd ar (of_int n) = Fin (of_int n)) \<and>
     (\<forall>r s. r \<le> s \<longrightarrow> js_le (rnd ar r) (rnd ar s)) \<and>
     0 < a_PI ar \<and> a_PI ar \<le> 4 \<and>
     a_sin ar 0 = 0 \<and>
     a_sqrt ar 0 = 0 \<and> (\<forall>r. 0 < r \<longrightarrow> 0 < a_sqrt ar r) \<and>
     (\<forall>x. 0 < x \<longrightarrow> a_atan2 ar (Fin 0) (Fin x) = 0) \<and>
     (\<forall>y x. nonneg y \<and> nonneg x \<longrightarrow> 0 \<le> a_atan2 ar y x \<and> a_atan2 ar y x \<le> 2)"

text \<open>
  The exact arithmetic: nothing is rounded and the \<^verbatim>\<open>Math\<close> functions are the
  mathematical ones (\<^verbatim>\<open>Math.atan2\<close> with the values that the language gives it on
  the infinities).
\<close>

fun exact_atan2 :: "jsnum \<Rightarrow> jsnum \<Rightarrow> real" where
  "exact_atan2 (Fin y) (Fin x) = atan2 y x"
| "exact_atan2 (Fin y) PosInf = 0"
| "exact_atan2 (Fin y) NegInf = (if 0 \<le> y then pi else - pi)"
| "exact_atan2 PosInf (Fin x) = pi / 2"
| "exact_atan2 NegInf (Fin x) = - (pi / 2)"
| "exact_atan2 PosInf PosInf = pi / 4"
| "exact_atan2 PosInf NegInf = 3 * pi / 4"
| "exact_atan2 NegInf PosInf = - (pi / 4)"
| "exact_atan2 NegInf NegInf = - (3 * pi / 4)"
| "exact_atan2 _ _ = 0"

definition exactArith :: Arith where
  "exactArith =
     \<lparr>rnd = Fin, a_PI = pi, a_sin = sin, a_cos = cos, a_sqrt = sqrt, a_atan2 = exact_atan2\<rparr>"

definition numLoc :: "jsnum \<Rightarrow> jsnum \<Rightarrow> NumLocation" where
  "numLoc la lo = \<lparr>nlat = la, nlng = lo\<rparr>"

section \<open>Constants (constants.ts)\<close>

fun MOCKED_FUEL_PRICES :: "FuelType \<Rightarrow> real" where
  "MOCKED_FUEL_PRICES PETROL = 280"
| "MOCKED_FUEL_PRICES DIESEL = 270"
| "MOCKED_FUEL_PRICES HYBRID = 280"
| "MOCKED_FUEL_PRICES EV = 40"

definition mockStation :: "string \<Rightarrow> string \<Rightarrow> real \<Rightarrow> real \<Rightarrow> string \<Rightarrow> real \<Rightarrow> FuelStation" where
  "mockStation sid sname la lo lname price =
     \<lparr>station_id = sid, station_name = sname,
      location = \<lparr>lat = la, lng = lo, loc_name = Some lname\<rparr>,
      fuelPrice = price, distanceKm = None\<rparr>"

definition MOCKED_FUEL_STATIONS :: "FuelStation list" where
  "MOCKED_FUEL_STATIONS =
     [mockStation ''1'' ''Shell Defence'' 24.8197 67.0371 ''Shell Defence, Karachi''
        (MOCKED_FUEL_PRICES PETROL * 0.98),
      mockStation ''2'' ''PSO Cantt'' 24.8250 67.0300 ''PSO Cantt, Karachi''
        (MOCKED_FUEL_PRICES PETROL),
      mockStation ''3'' ''Total Clifton'' 24.8360 67.0210 ''Total Clifton, Karachi''
        (MOCKED_FUEL_PRICES PETROL * 1.02),
      mockStation ''4'' ''Go Petroleum DHA'' 24.8050 67.0450 ''Go Petroleum DHA, Karachi''
        (MOCKED_FUEL_PRICES PETROL * 0.95),
      mockStation ''5'' ''Hascol Korangi'' 24.8210 67.0600 ''Hascol Korangi, Karachi''
        (MOCKED_FUEL_PRICES DIESEL * 0.99),
      mockStation ''6'' ''EV Charge Point Gizri'' 24.8300 67.0150 ''EV Charge Point Gizri, Karachi''
        (MOCKED_FUEL_PRICES EV * 1.1)]"

section \<open>Cost estimate (index.tsx, handlePlanTrip, lines 842 to 847)\<close>

text \<open>
  \<^verbatim>\<open>distanceKm / data.averageMileage\<close> is evaluated only under the guard
  \<^verbatim>\<open>data.averageMileage > 0\<close>, so the divisor is a positive finite number or
  \<^verbatim>\<open>Infinity\<close>; a finite distance divided by \<^verbatim>\<open>Infinity\<close> is zero. The two other
  equations are never reached.
\<close>

fun unitsNeededOf :: "real \<Rightarrow> jsnum \<Rightarrow> real" where
  "unitsNeededOf dKm (Fin m) = dKm / m"
| "unitsNeededOf dKm PosInf = 0"
| "unitsNeededOf dKm NegInf = 0"
| "unitsNeededOf dKm NaN = 0"

text \<open>
  \<^verbatim>\<open>let estimatedCost = 0; if (data.averageMileage > 0) { ... }\<close>: the cost stays at
  its initial value when the guard fails.
\<close>

definition estimatedCostOf :: "real \<Rightarrow> jsnum \<Rightarrow> real \<Rightarrow> real" where
  "estimatedCostOf dKm mileage fuelPricePerUnit =
     (if js_gt mileage (Fin 0)
      then (let unitsNeeded = unitsNeededOf dKm mileage
            in unitsNeeded * fuelPricePerUnit)
      else 0)"

section \<open>Sorting (Array.prototype.sort with a comparator)\<close>

text \<open>
  \<^verbatim>\<open>sort\<close> is stable, and places \<open>a\<close> after \<open>b\<close> when the comparator's value for
  \<open>(a, b)\<close> is above zero; a value that is zero, negative or \<^verbatim>\<open>NaN\<close> leaves \<open>a\<close>
  first. For a comparator that is a consistent ordering the result is determined, and
  the stable insertion sort below computes it. (For an inconsistent comparator the
  language leaves the order to the implementation.)
\<close>

fun js_insert :: "('a \<Rightarrow> 'a \<Rightarrow> jsnum) \<Rightarrow> 'a \<Rightarrow> 'a list \<Rightarrow> 'a list" where
  "js_insert cmp x [] = [x]"
| "js_insert cmp x (y # ys) =
     (if js_gt (cmp x y) (Fin 0) then y # js_insert cmp x ys else x # y # ys)"

definition js_sort :: "('a \<Rightarrow> 'a \<Rightarrow> jsnum) \<Rightarrow> 'a list \<Rightarrow> 'a list" where
  "js_sort cmp xs = foldr (js_insert cmp) xs []"

section \<open>Nearby stations (index.tsx, handlePlanTrip, lines 849 to 889)\<close>

text \<open>
  A place of the search result. The source asserts that the geometry is present
  (\<^verbatim>\<open>place.geometry!.location!\<close>); id and name may be missing.
\<close>

record PlaceResult =
  place_id :: "string option"
  place_name :: "string option"
  place_lat :: real
  place_lng :: real

text \<open>\<^verbatim>\<open>s || d\<close> on an optional string: a missing or empty string gives the default.\<close>

definition strOr :: "string option \<Rightarrow> string \<Rightarrow> string" where
  "strOr s d = (case s of None \<Rightarrow> d | Some v \<Rightarrow> if v = [] then d else v)"

text \<open>
  The body of \<^verbatim>\<open>results.map\<close>. The two calls of \<^verbatim>\<open>Math.random()\<close> are inputs:
  \<open>rnd\<close> is the draw for the price, \<open>rid\<close> the text of the draw for a missing id.
\<close>

definition placeToStation :: "Location \<Rightarrow> PlaceResult \<times> real \<times> string \<Rightarrow> FuelStation" where
  "placeToStation dest = (\<lambda>(place, rnd, rid).
     (let stationLoc = \<lparr>lat = place_lat place, lng = place_lng place, loc_name = place_name place\<rparr>;
          mockPrice = MOCKED_FUEL_PRICES PETROL * (0.95 + rnd * 0.1);
          dist = calculateDistance dest stationLoc
      in \<lparr>station_id = strOr (place_id place) rid,
          station_name = strOr (place_name place) ''Unknown Station'',
          location = stationLoc,
          fuelPrice = mockPrice,
          distanceKm = Some dist\<rparr>))"

text \<open>\<^verbatim>\<open>station.distanceKm !== undefined && station.distanceKm < 10\<close>\<close>

definition notFar :: "FuelStation \<Rightarrow> bool" where
  "notFar station = (case distanceKm station of None \<Rightarrow> False | Some d \<Rightarrow> d < 10)"

text \<open>
  \<^verbatim>\<open>a.distanceKm || Infinity\<close>: a distance that is missing or zero is falsy and is
  replaced by \<^verbatim>\<open>Infinity\<close>.
\<close>

definition distanceOrInfinity :: "FuelStation \<Rightarrow> jsnum" where
  "distanceOrInfinity a =
     (case distanceKm a of None \<Rightarrow> PosInf | Some d \<Rightarrow> if d = 0 then PosInf else Fin d)"

text \<open>
  \<^verbatim>\<open>(a, b) => (a.distanceKm || Infinity) - (b.distanceKm || Infinity)\<close>, the comparator
  of both sorts.
\<close>

definition byDistance :: "FuelStation \<Rightarrow> FuelStation \<Rightarrow> jsnum" where
  "byDistance a b = js_sub (distanceOrInfinity a) (distanceOrInfinity b)"

text \<open>The branch taken when the search answers \<^verbatim>\<open>OK\<close> with results.\<close>

definition primaryStations :: "Location \<Rightarrow> (PlaceResult \<times> real \<times> string) list \<Rightarrow> FuelStation list" where
  "primaryStations dest results =
     (let stations = filter notFar (map (placeToStation dest) results)
      in js_sort byDistance stations)"

text \<open>The branch taken otherwise: the mocked stations, each with its distance.\<close>

definition withDistance :: "Location \<Rightarrow> FuelStation \<Rightarrow> FuelStation" where
  "withDistance dest mock =
     mock\<lparr>distanceKm := Some (calculateDistance dest (location mock))\<rparr>"

definition fallbackStations :: "Location \<Rightarrow> FuelStation list" where
  "fallbackStations dest = js_sort byDistance (map (withDistance dest) MOCKED_FUEL_STATIONS)"

text \<open>
  The answer of \<^verbatim>\<open>nearbySearch\<close> as the callback receives it: whether the status is
  \<^verbatim>\<open>OK\<close>, and the results (with their random draws) when there are any.
\<close>

record PlacesResponse =
  places_ok :: bool
  places_results :: "(PlaceResult \<times> real \<times> string) list option"

definition nearbyStationsOf :: "Location \<Rightarrow> PlacesResponse \<Rightarrow> FuelStation list" where
  "nearbyStationsOf dest resp =
     (case places_results resp of
        Some results \<Rightarrow> if places_ok resp then primaryStations dest results else fallbackStations dest
      | None \<Rightarrow> fallbackStations dest)"

section \<open>Planning a trip (index.tsx, handlePlanTrip)\<close>

text \<open>
  The answer of the directions service. \<open>leg_distance\<close> is \<^verbatim>\<open>distance.value\<close> in
  metres and \<open>leg_duration\<close> is \<^verbatim>\<open>duration.text\<close>, each missing when the leg has no
  such object. The awaited call either rejects (\<open>Inl\<close>, with the message) or returns.
\<close>

record RouteLeg =
  leg_distance :: "real option"
  leg_duration :: "string option"

record Route =
  legs :: "RouteLeg list"
  overview_path :: "(real \<times> real) list"

record DirectionsResult =
  status :: string
  routes :: "Route list"

text \<open>
  What the handler leaves behind. \<open>MapsNotLoaded\<close> is the early return; \<open>PlanFailed\<close>
  is the \<^verbatim>\<open>catch\<close> block (the trip result is cleared and the page is \<^verbatim>\<open>HOME\<close>),
  with what was thrown: the rejection of the awaited call, the \<^verbatim>\<open>Error\<close> of the status
  check, or the type error of reading \<^verbatim>\<open>distance\<close> from a missing first leg;
  \<open>Planned\<close> is the new trip result, shown on the page \<^verbatim>\<open>RESULTS\<close>.
\<close>

datatype PlanError =
  DirectionsRejected string
| DirectionsRequestFailed
| LegUndefined

datatype PlanOutcome = MapsNotLoaded | PlanFailed PlanError | Planned "real TripResult"

definition handlePlanTrip ::
  "bool \<Rightarrow> string + DirectionsResult \<Rightarrow> PlacesResponse \<Rightarrow> TripData \<Rightarrow> PlanOutcome" where
  "handlePlanTrip mapsLoaded directions places data =
     (if \<not> mapsLoaded then MapsNotLoaded
      else case directions of
        Inl msg \<Rightarrow> PlanFailed (DirectionsRejected msg)
      | Inr directionsResult \<Rightarrow>
          if status directionsResult \<noteq> ''OK'' \<or> routes directionsResult = []
          then PlanFailed DirectionsRequestFailed
          else (case legs (hd (routes directionsResult)) of
             [] \<Rightarrow> PlanFailed LegUndefined
           | route # _ \<Rightarrow>
               (let dKm = (case leg_distance route of Some v \<Rightarrow> v / 1000 | None \<Rightarrow> 0);
                    time = (case leg_duration route of Some t \<Rightarrow> t | None \<Rightarrow> ''N/A'');
                    path = overview_path (hd (routes directionsResult));
                    fuelPricePerUnit = MOCKED_FUEL_PRICES (fuelType data);
                    cost = estimatedCostOf dKm (averageMileage data) fuelPricePerUnit;
                    stations = nearbyStationsOf (destination data) places
                in Planned \<lparr>tripData = data, trip_distanceKm = dKm, estimatedCost = cost,
                             estimatedTime = time, ecoTips = [], nearbyStations = stations,
                             routePath = path\<rparr>)))"

section \<open>Cheapest station (index.tsx, MapPage)\<close>

text \<open>
  The marker loop (lines 524 to 529): \<^verbatim>\<open>cheapestStation\<close> starts as \<^verbatim>\<open>null\<close> and is
  replaced by a station with a strictly lower price.
\<close>

fun cheapestFrom :: "FuelStation option \<Rightarrow> FuelStation list \<Rightarrow> FuelStation option" where
  "cheapestFrom cheapest [] = cheapest"
| "cheapestFrom cheapest (station # rest) =
     cheapestFrom
       (case cheapest of
          None \<Rightarrow> Some station
        | Some c \<Rightarrow> if fuelPrice station < fuelPrice c then Some station else Some c)
       rest"

definition cheapestStation :: "FuelStation list \<Rightarrow> FuelStation option" where
  "cheapestStation stations = cheapestFrom None stations"

text \<open>\<^verbatim>\<open>station.id === cheapestStation?.id\<close>: the marker of the station is green.\<close>

definition isCheapest :: "FuelStation list \<Rightarrow> FuelStation \<Rightarrow> bool" where
  "isCheapest stations station =
     (case cheapestStation stations of None \<Rightarrow> False | Some c \<Rightarrow> station_id station = station_id c)"

text \<open>
  The card list (line 582):
  \<^verbatim>\<open>nearbyStations.reduce((prev, curr) => (prev.fuelPrice < curr.fuelPrice ? prev : curr), nearbyStations[0])\<close>.
  With an empty list the initial value, and so the result, is \<^verbatim>\<open>undefined\<close>.
\<close>

definition cheapestByReduce :: "FuelStation list \<Rightarrow> FuelStation option" where
  "cheapestByReduce stations =
     (case stations of
        [] \<Rightarrow> None
      | first # _ \<Rightarrow>
          Some (foldl (\<lambda>prev curr. if fuelPrice prev < fuelPrice curr then prev else curr)
                  first stations))"

text \<open>The card of the station carries the badge \<^verbatim>\<open>Cheapest\<close>.\<close>

definition hasCheapestBadge :: "FuelStation list \<Rightarrow> FuelStation \<Rightarrow> bool" where
  "hasCheapestBadge stations station =
     (case cheapestByReduce stations of None \<Rightarrow> False | Some c \<Rightarrow> station_id station = station_id c)"

section \<open>Monthly expenses (index.tsx, HistoryPage, calculateMonthlyExpenses)\<close>

text \<open>
  The object \<^verbatim>\<open>monthly\<close> is a list of keys with their values in the order in which the
  keys were first assigned, which is the order of \<^verbatim>\<open>Object.keys\<close> for keys that are not
  array indices (a month label is none).
  \<^verbatim>\<open>monthly[k] = (monthly[k] || 0) + c\<close> keeps the position of a key that is present.
\<close>

definition orZero :: "real \<Rightarrow> real" where
  "orZero v = (if v = 0 then 0 else v)"

fun addMonthly :: "string \<Rightarrow> real \<Rightarrow> (string \<times> real) list \<Rightarrow> (string \<times> real) list" where
  "addMonthly k c [] = [(k, 0 + c)]"
| "addMonthly k c ((k', v) # monthly) =
     (if k = k' then (k', orZero v + c) # monthly else (k', v) # addMonthly k c monthly)"

text \<open>
  The date functions of the runtime are parameters: \<open>monthYear\<close> is
  \<^verbatim>\<open>new Date(s).toLocaleString('default', { month: 'short', year: 'numeric' })\<close>, and
  \<open>labelTime\<close> is \<^verbatim>\<open>new Date(label).getTime()\<close>, which is \<^verbatim>\<open>NaN\<close> for a label that
  does not parse. Both depend on the locale and the time zone of the browser.
\<close>

definition monthlyTotals ::
  "(string \<Rightarrow> string) \<Rightarrow> real TripHistoryEntry list \<Rightarrow> (string \<times> real) list" where
  "monthlyTotals monthYear history =
     foldl (\<lambda>monthly trip. addMonthly (monthYear (date trip)) (entry_estimatedCost trip) monthly)
       [] history"

definition byLabelTime :: "(string \<Rightarrow> jsnum) \<Rightarrow> MonthlyExpense \<Rightarrow> MonthlyExpense \<Rightarrow> jsnum" where
  "byLabelTime labelTime a b = js_sub (labelTime (month a)) (labelTime (month b))"

text \<open>
  \<^verbatim>\<open>Object.keys(monthly).map((month) => ({ month, cost: monthly[month] }))\<close> pairs every
  key with its own value.
\<close>

definition calculateMonthlyExpenses ::
  "(string \<Rightarrow> string) \<Rightarrow> (string \<Rightarrow> jsnum) \<Rightarrow> real TripHistoryEntry list \<Rightarrow> MonthlyExpense list" where
  "calculateMonthlyExpenses monthYear labelTime history =
     (let monthly = monthlyTotals monthYear history;
          expenses = map (\<lambda>(k, v). \<lparr>month = k, cost = v\<rparr>) monthly
      in js_sort (byLabelTime labelTime) expenses)"

section \<open>JSON (JSON.stringify and JSON.parse)\<close>

text \<open>
  A JSON text is modelled by the value that it denotes (\<open>json\<close>): printing a value and
  reading the text again is the work of the runtime. A JavaScript value that the program
  serialises, or that \<^verbatim>\<open>JSON.parse\<close> yields, is a \<open>jsval\<close>. An object is the list of its
  members in their order; the keys of one object are distinct, and none is an array index.
  \<^verbatim>\<open>JSON.stringify\<close> writes \<^verbatim>\<open>null\<close> for a number that is not finite.
\<close>

datatype json =
  JNull | JBool bool | JNumber real | JString string
| JArray "json list" | JObject "(string \<times> json) list"

datatype jsval =
  VNull | VBool bool | VNumber jsnum | VString string
| VArray "jsval list" | VObject "(string \<times> jsval) list"

primrec JSON_stringify :: "jsval \<Rightarrow> json" where
  "JSON_stringify VNull = JNull"
| "JSON_stringify (VBool b) = JBool b"
| "JSON_stringify (VNumber n) = (case n of Fin r \<Rightarrow> JNumber r | _ \<Rightarrow> JNull)"
| "JSON_stringify (VString s) = JString s"
| "JSON_stringify (VArray vs) = JArray (map JSON_stringify vs)"
| "JSON_stringify (VObject ms) = JObject (map (map_prod id JSON_stringify) ms)"

primrec JSON_parse :: "json \<Rightarrow> jsval" where
  "JSON_parse JNull = VNull"
| "JSON_parse (JBool b) = VBool b"
| "JSON_parse (JNumber r) = VNumber (Fin r)"
| "JSON_parse (JString s) = VString s"
| "JSON_parse (JArray js) = VArray (map JSON_parse js)"
| "JSON_parse (JObject ms) = VObject (map (map_prod id JSON_parse) ms)"

section \<open>The history store (index.tsx, handleSaveTrip and HistoryPage)\<close>

text \<open>
  \<^verbatim>\<open>localStorage\<close> maps a key to a JSON text. \<open>nowId\<close> is \<^verbatim>\<open>Date.now().toString()\<close>
  and \<open>nowDate\<close> is \<^verbatim>\<open>new Date().toLocaleString()\<close> at the moment of the call. The trip
  result holds whatever numbers the planning left in it.
\<close>

definition historyEntryOf :: "string \<Rightarrow> string \<Rightarrow> jsnum TripResult \<Rightarrow> jsnum TripHistoryEntry" where
  "historyEntryOf nowId nowDate result =
     \<lparr>entry_id = nowId,
      date = nowDate,
      entry_carModel = carModel (tripData result),
      startLocationName = strOr (loc_name (startLocation (tripData result))) ''Unknown'',
      destinationName = strOr (loc_name (destination (tripData result))) ''Unknown'',
      entry_distanceKm = trip_distanceKm result,
      entry_estimatedCost = estimatedCost result\<rparr>"

text \<open>The entry as the object that the literal of the source builds, key by key.\<close>

definition entryValue :: "jsnum TripHistoryEntry \<Rightarrow> jsval" where
  "entryValue e =
     VObject [(''id'', VString (entry_id e)),
              (''date'', VString (date e)),
              (''carModel'', VString (entry_carModel e)),
              (''startLocationName'', VString (startLocationName e)),
              (''destinationName'', VString (destinationName e)),
              (''distanceKm'', VNumber (entry_distanceKm e)),
              (''estimatedCost'', VNumber (entry_estimatedCost e))]"

text \<open>
  \<^verbatim>\<open>[...existingHistory, historyEntry]\<close>: the spread takes the elements of an array and
  the characters of a string, and throws a type error on any other parsed value.
\<close>

definition spreadOf :: "jsval \<Rightarrow> jsval list option" where
  "spreadOf v =
     (case v of
        VArray vs \<Rightarrow> Some vs
      | VString s \<Rightarrow> Some (map (\<lambda>c. VString [c]) s)
      | _ \<Rightarrow> None)"

text \<open>
  The handler has no \<^verbatim>\<open>try\<close>: when the spread throws, nothing is written
  (\<open>SaveThrew\<close>); otherwise the store is returned with the item replaced.
\<close>

datatype SaveOutcome = SaveThrew | Saved "string \<Rightarrow> json option"

definition handleSaveTrip ::
  "string \<Rightarrow> string \<Rightarrow> jsnum TripResult \<Rightarrow> (string \<rightharpoonup> json) \<Rightarrow> SaveOutcome" where
  "handleSaveTrip nowId nowDate result localStorage =
     (let historyEntry = entryValue (historyEntryOf nowId nowDate result);
          storedHistory = localStorage ''tripHistory'';
          existingHistory = (case storedHistory of Some t \<Rightarrow> JSON_parse t | None \<Rightarrow> VArray [])
      in case spreadOf existingHistory of
           None \<Rightarrow> SaveThrew
         | Some elements \<Rightarrow>
             (let updatedHistory = VArray (elements @ [historyEntry])
              in Saved (localStorage(''tripHistory'' \<mapsto> JSON_stringify updatedHistory))))"


section \<open>The specification's wording, for comparison with the code\<close>

text \<open>
  Station ranker, steps 2 and 3 of the specification, over candidates whose distance is
  populated: discard a candidate whose distance exceeds the radius threshold or is
  undefined, then sort ascending by distance, ties in input order (\<^const>\<open>sort_key\<close> is
  a stable sort).
\<close>

definition spec_withinRadius :: "real \<Rightarrow> FuelStation \<Rightarrow> bool" where
  "spec_withinRadius radius station =
     (case distanceKm station of None \<Rightarrow> False | Some d \<Rightarrow> d \<le> radius)"

definition knownDistance :: "FuelStation \<Rightarrow> real" where
  "knownDistance station = (case distanceKm station of None \<Rightarrow> 0 | Some d \<Rightarrow> d)"

definition spec_rankStations :: "real \<Rightarrow> FuelStation list \<Rightarrow> FuelStation list" where
  "spec_rankStations radius candidates =
     sort_key knownDistance (filter (spec_withinRadius radius) candidates)"

text \<open>
  The ranking of the primary path (distance, the filter \<^const>\<open>notFar\<close>, the sort)
  applied to a list of stations instead of a list of places.
\<close>

definition rankAsPrimary :: "Location \<Rightarrow> FuelStation list \<Rightarrow> FuelStation list" where
  "rankAsPrimary dest stations =
     js_sort byDistance (filter notFar (map (withDistance dest) stations))"

text \<open>
  Cost estimator of the specification: \<open>InvalidInput\<close> when the mileage is not above
  zero, the quotient times the price otherwise.
\<close>

datatype spec_error = InvalidInput

definition spec_cost :: "real \<Rightarrow> real \<Rightarrow> real \<Rightarrow> spec_error + real" where
  "spec_cost dKm mileage price =
     (if mileage \<le> 0 then Inl InvalidInput else Inr ((dKm / mileage) * price))"

section \<open>Orders and fixtures used in the proofs\<close>

text \<open>
  The order that \<^const>\<open>byDistance\<close> induces, as a key in a linear order: the stations
  with a finite key by that key, then those whose key is \<^verbatim>\<open>Infinity\<close>.
\<close>

definition distanceRank :: "FuelStation \<Rightarrow> bool \<times> real" where
  "distanceRank station =
     (case distanceOrInfinity station of Fin d \<Rightarrow> (False, d) | _ \<Rightarrow> (True, 0))"

text \<open>The real that a finite number is; used for the times of labels that parse.\<close>

definition finiteValue :: "jsnum \<Rightarrow> real" where
  "finiteValue x = (case x of Fin r \<Rightarrow> r | _ \<Rightarrow> 0)"

text \<open>The value of a key of the object \<^verbatim>\<open>monthly\<close>, zero for a key that is absent.\<close>

definition totalOf :: "(string \<times> real) list \<Rightarrow> string \<Rightarrow> real" where
  "totalOf monthly k = (case map_of monthly k of None \<Rightarrow> 0 | Some v \<Rightarrow> v)"

text \<open>The cost of a planned trip; \<open>None\<close> when the handler did not plan one.\<close>

definition plannedCost :: "PlanOutcome \<Rightarrow> real option" where
  "plannedCost outcome = (case outcome of Planned r \<Rightarrow> Some (estimatedCost r) | _ \<Rightarrow> None)"

definition planFailed :: "PlanOutcome \<Rightarrow> bool" where
  "planFailed outcome = (case outcome of PlanFailed _ \<Rightarrow> True | _ \<Rightarrow> False)"

text \<open>A point by its coordinates, and a place with an id and a name there.\<close>

definition point :: "real \<Rightarrow> real \<Rightarrow> Location" where
  "point la lo = \<lparr>lat = la, lng = lo, loc_name = None\<rparr>"

definition placeAt :: "string \<Rightarrow> real \<Rightarrow> real \<Rightarrow> PlaceResult \<times> real \<times> string" where
  "placeAt pid la lo =
     (\<lparr>place_id = Some pid, place_name = Some pid, place_lat = la, place_lng = lo\<rparr>, 0.5, ''0.5'')"

text \<open>
  The difference of latitude, in degrees, between two points of one meridian that are
  \<open>km\<close> kilometres apart on the sphere of radius 6371 km.
\<close>

definition kmNorth :: "real \<Rightarrow> real" where
  "kmNorth km = km * 180 / (6371 * pi)"

text \<open>
  A trip request with a given mileage and destination, an answer of the directions
  service with one route of one leg of the given length in metres, and a place search
  that failed.
\<close>

definition tripWith :: "jsnum \<Rightarrow> Location \<Rightarrow> TripData" where
  "tripWith mileage dest =
     \<lparr>carModel = ''Civic'', fuelType = PETROL, averageMileage = mileage,
      startLocation = \<lparr>lat = 24.8607, lng = 67.0011, loc_name = Some ''Karachi''\<rparr>,
      destination = dest, preferredSpeedRange = None\<rparr>"

definition okDirections :: "real \<Rightarrow> DirectionsResult" where
  "okDirections metres =
     \<lparr>status = ''OK'',
      routes = [\<lparr>legs = [\<lparr>leg_distance = Some metres, leg_duration = Some ''2 hours''\<rparr>],
                 overview_path = []\<rparr>]\<rparr>"

definition searchFailed :: PlacesResponse where
  "searchFailed = \<lparr>places_ok = False, places_results = None\<rparr>"

text \<open>
  The store after a call of the save handler (unchanged when it threw), the elements of
  an array value, and whether a number is finite.
\<close>

definition storeAfter :: "(string \<rightharpoonup> json) \<Rightarrow> SaveOutcome \<Rightarrow> (string \<rightharpoonup> json)" where
  "storeAfter localStorage outcome = (case outcome of Saved st \<Rightarrow> st | SaveThrew \<Rightarrow> localStorage)"


definition isFinite :: "jsnum \<Rightarrow> bool" where
  "isFinite n = (case n of Fin r \<Rightarrow> True | _ \<Rightarrow> False)"

text \<open>What is read back for a number that was written: itself, or \<^verbatim>\<open>null\<close>.\<close>

definition asStored :: "jsnum \<Rightarrow> jsval" where
  "asStored n = (case n of Fin r \<Rightarrow> VNumber (Fin r) | _ \<Rightarrow> VNull)"


definition stationPriced :: "string \<Rightarrow> real \<Rightarrow> real \<Rightarrow> FuelStation" where
  "stationPriced sid price km =
     \<lparr>station_id = sid, station_name = sid,
      location = \<lparr>lat = 24.8, lng = 67.0, loc_name = None\<rparr>,
      fuelPrice = price, distanceKm = Some km\<rparr>"

text \<open>
  The date functions of a browser with the locale \<^verbatim>\<open>en-US\<close> in the time zone UTC, on
  the dates and labels of the specification's example; \<open>labelTime\<close> is in milliseconds
  since the epoch.
\<close>

definition enUS_monthYear :: "string \<Rightarrow> string" where
  "enUS_monthYear s =
     (if s = ''2024-01-05'' \<or> s = ''2024-01-20'' then ''Jan 2024''
      else if s = ''2024-02-01'' then ''Feb 2024''
      else ''Invalid Date'')"

definition enUS_labelTime :: "string \<Rightarrow> jsnum" where
  "enUS_labelTime label =
     (if label = ''Jan 2024'' then Fin 1704067200000
      else if label = ''Feb 2024'' then Fin 1706745600000
      else NaN)"

definition historyEntry :: "string \<Rightarrow> string \<Rightarrow> real \<Rightarrow> real TripHistoryEntry" where
  "historyEntry i d c =
     \<lparr>entry_id = i, date = d, entry_carModel = ''Civic'', startLocationName = ''Karachi'',
      destinationName = ''Lahore'', entry_distanceKm = 1210, entry_estimatedCost = c\<rparr>"

section \<open>Geo-distance: range, symmetry, the haversine formula\<close>

lemma toRad_diff: "toRad (x - y) = toRad x - toRad y"
  by (simp add: toRad_def algebra_simps diff_divide_distrib)

lemma sin_sq_half: "sin (x / 2) * sin (x / 2) = (1 - cos x) / (2::real)"
  using sin_times_sin [of "x / 2" "x / 2"] by simp

lemma hav_a_alt:
  "hav_a loc1 loc2 =
     (1 - cos (toRad (lat loc2) - toRad (lat loc1))) / 2 +
     (1 - cos (toRad (lng loc2) - toRad (lng loc1))) / 2 * (cos (toRad (lat loc1)) * cos (toRad (lat loc2)))"
  by (simp add: hav_a_def Let_def sin_sq_half toRad_diff mult.assoc)

text \<open>
  With \<open>p\<close> the cosine of the difference of the latitudes and \<open>q\<close> the cosine of their
  sum, the haversine is \<open>(1 - p) / 2 + s * ((p + q) / 2)\<close> for some \<open>s\<close> in \<open>[0, 1]\<close>:
  it lies between \<open>(1 - p) / 2\<close> and \<open>(1 + q) / 2\<close>.
\<close>

lemma hav_mix_range:
  fixes s p q :: real
  assumes s: "0 \<le> s" "s \<le> 1" and p: "-1 \<le> p" "p \<le> 1" and q: "-1 \<le> q" "q \<le> 1"
  shows "0 \<le> (1 - p) / 2 + s * ((p + q) / 2) \<and> (1 - p) / 2 + s * ((p + q) / 2) \<le> 1"
proof -
  define t where "t = s * ((p + q) / 2)"
  have "0 \<le> t \<and> t \<le> (p + q) / 2 \<or> (p + q) / 2 \<le> t \<and> t \<le> 0"
  proof (cases "0 \<le> p + q")
    case True
    have "s * ((p + q) / 2) \<le> 1 * ((p + q) / 2)"
      using s True by (intro mult_right_mono) auto
    moreover have "0 \<le> s * ((p + q) / 2)" using s True by simp
    ultimately show ?thesis by (simp add: t_def)
  next
    case False
    have "1 * ((p + q) / 2) \<le> s * ((p + q) / 2)"
      using s False by (intro mult_right_mono_neg) auto
    moreover have "s * ((p + q) / 2) \<le> 0" using s False by (simp add: mult_nonneg_nonpos)
    ultimately show ?thesis by (simp add: t_def)
  qed
  then have "0 \<le> (1 - p) / 2 + t \<and> (1 - p) / 2 + t \<le> 1"
    using p q by argo
  then show ?thesis by (simp only: t_def)
qed

lemma hav_a_range: "0 \<le> hav_a loc1 loc2 \<and> hav_a loc1 loc2 \<le> 1"
proof -
  define x where "x = toRad (lat loc1)"
  define y where "y = toRad (lat loc2)"
  define d where "d = toRad (lng loc2) - toRad (lng loc1)"
  have cc: "cos x * cos y = (cos (y - x) + cos (y + x)) / 2"
    by (simp add: cos_diff cos_add)
  have a: "hav_a loc1 loc2 = (1 - cos (y - x)) / 2 + ((1 - cos d) / 2) * ((cos (y - x) + cos (y + x)) / 2)"
    unfolding hav_a_alt x_def [symmetric] y_def [symmetric] d_def [symmetric] cc ..
  have s: "0 \<le> (1 - cos d) / 2" "(1 - cos d) / 2 \<le> 1"
    using cos_le_one [of d] cos_ge_minus_one [of d] by auto
  show ?thesis
    unfolding a
    by (rule hav_mix_range [OF s]) (simp_all)
qed

lemma hav_a_sym: "hav_a loc1 loc2 = hav_a loc2 loc1"
proof -
  have "cos (toRad (lat loc2) - toRad (lat loc1)) = cos (toRad (lat loc1) - toRad (lat loc2))"
    by (simp add: cos_diff mult.commute)
  moreover have "cos (toRad (lng loc2) - toRad (lng loc1)) = cos (toRad (lng loc1) - toRad (lng loc2))"
    by (simp add: cos_diff mult.commute)
  ultimately show ?thesis by (simp add: hav_a_alt mult.commute)
qed

lemma hav_a_same: "hav_a loc loc = 0"
  by (simp add: hav_a_alt)

lemma atan2_quadrant1:
  assumes "0 \<le> y" "0 \<le> x"
  shows "0 \<le> atan2 y x \<and> atan2 y x \<le> pi / 2"
proof (cases "0 < x")
  case True
  then have "0 \<le> y / x" using assms by simp
  then have "0 \<le> arctan (y / x)" by (simp add: zero_le_arctan_iff)
  moreover have "arctan (y / x) < pi / 2" using arctan_bounded by blast
  ultimately show ?thesis using True by (simp add: atan2_def)
next
  case False
  then have "x = 0" using assms by simp
  then show ?thesis using assms by (auto simp: atan2_def)
qed

lemma atan2_arcsin:
  assumes "0 \<le> a" "a \<le> 1"
  shows "atan2 (sqrt a) (sqrt (1 - a)) = arcsin (sqrt a)"
proof (cases "a = 1")
  case True
  then show ?thesis by (simp add: atan2_def)
next
  case False
  then have a1: "a < 1" using assms by simp
  then have pos: "0 < sqrt (1 - a)" by simp
  have "sqrt a < 1" using a1 assms by simp
  moreover have "-1 < sqrt a" using assms by (smt (verit) real_sqrt_ge_zero)
  ultimately have "arcsin (sqrt a) = arctan (sqrt a / sqrt (1 - (sqrt a)\<^sup>2))"
    by (rule arcsin_arctan [OF _ _, rotated -1])
  then show ?thesis using pos assms by (simp add: atan2_def)
qed

lemma calculateDistance_haversine:
  "calculateDistance loc1 loc2 = 6371 * (2 * arcsin (sqrt (hav_a loc1 loc2)))"
  using hav_a_range [of loc1 loc2] by (simp add: calculateDistance_def Let_def atan2_arcsin)

lemma calculateDistance_nonneg: "0 \<le> calculateDistance loc1 loc2"
proof -
  have "0 \<le> sqrt (hav_a loc1 loc2)" "0 \<le> sqrt (1 - hav_a loc1 loc2)"
    using hav_a_range [of loc1 loc2] by simp_all
  then have "0 \<le> atan2 (sqrt (hav_a loc1 loc2)) (sqrt (1 - hav_a loc1 loc2))"
    using atan2_quadrant1 by blast
  then show ?thesis by (simp add: calculateDistance_def Let_def)
qed

lemma calculateDistance_upper: "calculateDistance loc1 loc2 \<le> 6371 * pi"
proof -
  have "0 \<le> sqrt (hav_a loc1 loc2)" "0 \<le> sqrt (1 - hav_a loc1 loc2)"
    using hav_a_range [of loc1 loc2] by simp_all
  then have "atan2 (sqrt (hav_a loc1 loc2)) (sqrt (1 - hav_a loc1 loc2)) \<le> pi / 2"
    using atan2_quadrant1 by blast
  then show ?thesis by (simp add: calculateDistance_def Let_def)
qed

lemma calculateDistance_self: "calculateDistance loc loc = 0"
  by (simp add: calculateDistance_def hav_a_same atan2_def)

text \<open>On exact reals the distance does not depend on the order of the two points.\<close>

lemma calculateDistance_sym: "calculateDistance A B = calculateDistance B A"
  by (simp add: calculateDistance_def hav_a_sym [of A B])

section \<open>Geo-distance in double arithmetic\<close>

subsection \<open>Rounding\<close>

text \<open>
  A real between two integers that are doubles is rounded to a finite number between
  them.
\<close>

lemma js_le_between:
  assumes "js_le (Fin a) x" "js_le x (Fin b)"
  shows "\<exists>q. x = Fin q \<and> a \<le> q \<and> q \<le> b"
  using assms by (cases x) (simp_all add: js_le_def)

lemma rnd_bounded:
  assumes ar: "ieee ar" and n: "\<bar>n\<bar> \<le> (2::int) ^ 53" and r: "- of_int n \<le> r" "r \<le> of_int n"
  shows "\<exists>q. rnd ar r = Fin q \<and> - of_int n \<le> q \<and> q \<le> of_int n"
proof -
  have fixed: "rnd ar (of_int m) = Fin (of_int m)" if "\<bar>m\<bar> \<le> (2::int) ^ 53" for m
    using ar that by (simp add: ieee_def)
  have mono: "js_le (rnd ar x) (rnd ar y)" if "x \<le> y" for x y
    using ar that by (simp add: ieee_def)
  have "rnd ar (of_int (- n)) = Fin (of_int (- n))" using n by (intro fixed) simp
  then have lo: "rnd ar (- of_int n) = Fin (- of_int n)" by simp
  have hi: "rnd ar (of_int n) = Fin (of_int n)" using n by (rule fixed)
  have "js_le (Fin (- of_int n)) (rnd ar r)" using mono [OF r(1)] lo by simp
  moreover have "js_le (rnd ar r) (Fin (of_int n))" using mono [OF r(2)] hi by simp
  ultimately show ?thesis by (rule js_le_between)
qed

lemma rnd_zero: "ieee ar \<Longrightarrow> rnd ar 0 = Fin 0"
  using rnd_bounded [of ar 0 0] by auto

lemma rnd_one: "ieee ar \<Longrightarrow> rnd ar 1 = Fin 1"
proof -
  assume ar: "ieee ar"
  have "rnd ar (of_int 1) = Fin (of_int 1)"
    using ar unfolding ieee_def by (elim conjE allE [of _ "1::int"]) simp
  then show ?thesis by simp
qed

lemma rnd_nonneg_range:
  assumes ar: "ieee ar" and r: "0 \<le> r" "r \<le> of_int n" and n: "0 \<le> n" "n \<le> (2::int) ^ 53"
  shows "\<exists>q. rnd ar r = Fin q \<and> 0 \<le> q \<and> q \<le> of_int n"
proof -
  have mono: "js_le (rnd ar x) (rnd ar y)" if "x \<le> y" for x y
    using ar that by (simp add: ieee_def)
  have "rnd ar (of_int n) = Fin (of_int n)"
    using ar n unfolding ieee_def by (elim conjE allE [of _ n]) simp
  then have b: "js_le (rnd ar r) (Fin (of_int n))" using mono [OF r(2)] by simp
  have a: "js_le (Fin 0) (rnd ar r)" using mono [OF r(1)] rnd_zero [OF ar] by simp
  from js_le_between [OF a b] show ?thesis .
qed

subsection \<open>A point and itself\<close>

text \<open>
  Every difference is 0 and every sine of it is 0; the cosine of the latitude is a
  finite number, since a latitude of at most 90 degrees does not overflow when it is
  multiplied by \<^verbatim>\<open>Math.PI\<close>; so \<^verbatim>\<open>a\<close> is 0 and the angle is \<^verbatim>\<open>Math.atan2(0, 1)\<close>.
\<close>

lemma fl_Fin: "fl ar (Fin r) = rnd ar r"
  by (simp add: fl_def)

lemma fl_zero: "ieee ar \<Longrightarrow> fl ar (Fin 0) = Fin 0"
  by (simp add: fl_def rnd_zero)

lemma toRadIn_zero: "ieee ar \<Longrightarrow> toRadIn ar (Fin 0) = Fin 0"
  by (simp add: toRadIn_def fl_mul_def fl_div_def fl_zero)

lemma toRadIn_finite:
  assumes ar: "ieee ar" and la: "\<bar>la\<bar> \<le> 90"
  shows "\<exists>q. toRadIn ar (Fin la) = Fin q"
proof -
  have p: "0 < a_PI ar" "a_PI ar \<le> 4" using ar by (simp_all add: ieee_def)
  have "\<bar>la * a_PI ar\<bar> \<le> 90 * 4"
    unfolding abs_mult using la p by (intro mult_mono) auto
  then have "- of_int 360 \<le> la * a_PI ar" "la * a_PI ar \<le> of_int 360" by (simp_all add: abs_le_iff)
  from rnd_bounded [OF ar _ this] obtain q where q: "rnd ar (la * a_PI ar) = Fin q" "- 360 \<le> q" "q \<le> 360"
    by auto
  have "- of_int 2 \<le> q / 180" "q / 180 \<le> of_int 2" using q by simp_all
  from rnd_bounded [OF ar _ this] obtain q' where "rnd ar (q / 180) = Fin q'" by auto
  then show ?thesis using q by (simp add: toRadIn_def fl_mul_def fl_div_def fl_Fin)
qed

lemma same_point_zero:
  assumes ar: "ieee ar" and la: "\<bar>la\<bar> \<le> 90"
  shows "calculateDistanceIn ar (numLoc (Fin la) (Fin lo)) (numLoc (Fin la) (Fin lo)) = Fin 0"
proof -
  have z: "rnd ar 0 = Fin 0" by (rule rnd_zero [OF ar])
  have o: "rnd ar 1 = Fin 1" by (rule rnd_one [OF ar])
  have d: "fl_sub ar (Fin la) (Fin la) = Fin 0" "fl_sub ar (Fin lo) (Fin lo) = Fin 0"
    by (simp_all add: fl_sub_def fl_Fin z)
  have h: "fl_div ar (Fin 0) (Fin 2) = Fin 0" by (simp add: fl_div_def fl_Fin z)
  have s: "m_sin ar (Fin 0) = Fin 0" using ar by (simp add: m_sin_def ieee_def)
  have ss: "fl_mul ar (Fin 0) (Fin 0) = Fin 0" by (simp add: fl_mul_def fl_Fin z)
  obtain q where q: "toRadIn ar (Fin la) = Fin q" using toRadIn_finite [OF ar la] by blast
  have c: "m_cos ar (Fin q) = Fin (a_cos ar q)" by (simp add: m_cos_def)
  have zc: "fl_mul ar (Fin 0) (Fin (a_cos ar q)) = Fin 0" by (simp add: fl_mul_def fl_Fin z)
  have a: "fl_add ar (Fin 0) (Fin 0) = Fin 0" by (simp add: fl_add_def fl_Fin z)
  have r0: "m_sqrt ar (Fin 0) = Fin 0" using ar by (simp add: m_sqrt_def ieee_def)
  have one: "fl_sub ar (Fin 1) (Fin 0) = Fin 1" by (simp add: fl_sub_def fl_Fin o)
  have "0 < a_sqrt ar 1" using ar by (simp add: ieee_def)
  then have r1: "m_sqrt ar (Fin 1) = Fin (a_sqrt ar 1)" and "0 < a_sqrt ar 1"
    by (simp_all add: m_sqrt_def)
  then have at: "m_atan2 ar (Fin 0) (Fin (a_sqrt ar 1)) = Fin 0"
    using ar by (simp add: m_atan2_def ieee_def)
  have two: "fl_mul ar (Fin 2) (Fin 0) = Fin 0" by (simp add: fl_mul_def fl_Fin z)
  have rr: "fl_mul ar (Fin 6371) (Fin 0) = Fin 0" by (simp add: fl_mul_def fl_Fin z)
  show ?thesis
    by (simp add: calculateDistanceIn_def numLoc_def Let_def d toRadIn_zero [OF ar] h s ss q c zc a r0
        one r1 at two rr)
qed


subsection \<open>Numbers that are not finite\<close>

text \<open>
  A coordinate that is \<^verbatim>\<open>NaN\<close> or an infinity makes a difference that is not finite,
  its sine is \<^verbatim>\<open>NaN\<close>, and \<^verbatim>\<open>NaN\<close> goes through every later operation.
\<close>

lemma fl_nonfinite: "\<not> isFinite x \<Longrightarrow> fl ar x = x"
  by (cases x) (simp_all add: fl_def isFinite_def)

lemma fl_sub_nonfinite: "\<not> isFinite x \<or> \<not> isFinite y \<Longrightarrow> \<not> isFinite (fl_sub ar x y)"
  by (cases x; cases y) (simp_all add: fl_sub_def fl_def isFinite_def)

lemma toRadIn_nonfinite:
  assumes "ieee ar" "\<not> isFinite v"
  shows "\<not> isFinite (toRadIn ar v)"
proof -
  have p: "0 < a_PI ar" using assms(1) by (simp add: ieee_def)
  show ?thesis
    using assms(2) p by (cases v) (simp_all add: toRadIn_def fl_mul_def fl_div_def fl_def isFinite_def)
qed

lemma half_nonfinite: "\<not> isFinite v \<Longrightarrow> \<not> isFinite (fl_div ar v (Fin 2))"
  by (cases v) (simp_all add: fl_div_def fl_def isFinite_def)

lemma m_sin_nonfinite: "\<not> isFinite v \<Longrightarrow> m_sin ar v = NaN"
  by (cases v) (simp_all add: m_sin_def isFinite_def)

lemma m_cos_nonfinite: "\<not> isFinite v \<Longrightarrow> m_cos ar v = NaN"
  by (cases v) (simp_all add: m_cos_def isFinite_def)

lemma nan_absorbs:
  "fl_mul ar NaN x = NaN" "fl_mul ar x NaN = NaN" "fl_add ar NaN x = NaN" "fl_add ar x NaN = NaN"
  "fl_sub ar x NaN = NaN" "m_sqrt ar NaN = NaN" "m_atan2 ar NaN x = NaN" "m_atan2 ar x NaN = NaN"
  by (cases x; simp add: fl_mul_def fl_add_def fl_sub_def fl_def m_sqrt_def m_atan2_def)+

lemma sin_half_nan:
  assumes "ieee ar" "\<not> isFinite x \<or> \<not> isFinite y"
  shows "m_sin ar (fl_div ar (toRadIn ar (fl_sub ar x y)) (Fin 2)) = NaN"
  by (intro m_sin_nonfinite half_nonfinite toRadIn_nonfinite fl_sub_nonfinite assms)

lemma nonfinite_nan:
  assumes ar: "ieee ar"
    and nf: "\<not> isFinite (nlat A) \<or> \<not> isFinite (nlng A) \<or> \<not> isFinite (nlat B) \<or> \<not> isFinite (nlng B)"
  shows "calculateDistanceIn ar A B = NaN"
proof -
  from nf consider "\<not> isFinite (nlat B) \<or> \<not> isFinite (nlat A)" | "\<not> isFinite (nlng B) \<or> \<not> isFinite (nlng A)"
    by blast
  then show ?thesis
  proof cases
    case 1
    from sin_half_nan [OF ar this] show ?thesis
      by (simp add: calculateDistanceIn_def Let_def nan_absorbs)
  next
    case 2
    from sin_half_nan [OF ar this] show ?thesis
      by (simp add: calculateDistanceIn_def Let_def nan_absorbs)
  qed
qed

lemma nan_more:
  "fl_sub ar NaN x = NaN" "toRadIn ar NaN = NaN" "fl_div ar NaN x = NaN" "m_sin ar NaN = NaN"
  "m_cos ar NaN = NaN" "fl_sub ar PosInf PosInf = NaN"
  by (simp_all add: fl_sub_def toRadIn_def fl_mul_def fl_div_def fl_def m_sin_def m_cos_def)

lemma nan_latitude:
  "calculateDistanceIn ar (numLoc NaN lo) B = NaN" "calculateDistanceIn ar A (numLoc NaN lo) = NaN"
  by (simp_all add: calculateDistanceIn_def Let_def numLoc_def nan_absorbs nan_more)

lemma inf_latitude: "calculateDistanceIn ar (numLoc PosInf lo) (numLoc PosInf lo) = NaN"
  by (simp add: calculateDistanceIn_def Let_def numLoc_def nan_absorbs nan_more)

text \<open>
  When the product of a latitude and \<^verbatim>\<open>Math.PI\<close> overflows, the cosine is taken of an
  infinity, and the distance from the point to itself is \<^verbatim>\<open>NaN\<close> and not 0.
\<close>

lemma overflow_nan:
  assumes "\<not> isFinite (rnd ar (la * a_PI ar))"
  shows "calculateDistanceIn ar (numLoc (Fin la) (Fin lo)) (numLoc (Fin la) (Fin lo)) = NaN"
proof -
  have "\<not> isFinite (toRadIn ar (Fin la))"
    using assms by (cases "rnd ar (la * a_PI ar)") (simp_all add: toRadIn_def fl_mul_def fl_div_def fl_def isFinite_def)
  then have "m_cos ar (toRadIn ar (Fin la)) = NaN" by (rule m_cos_nonfinite)
  then show ?thesis by (simp add: calculateDistanceIn_def Let_def numLoc_def nan_absorbs)
qed

subsection \<open>The range of the result\<close>

text \<open>
  A square root is \<^verbatim>\<open>NaN\<close> or not negative, so the angle is \<^verbatim>\<open>NaN\<close> or in \<open>[0, 2]\<close>, and
  the two products that follow are rounded between 0 and the integers 4 and 25484.
\<close>

lemma m_sqrt_cases: "ieee ar \<Longrightarrow> m_sqrt ar x = NaN \<or> nonneg (m_sqrt ar x)"
proof -
  assume ar: "ieee ar"
  have pos: "0 \<le> a_sqrt ar r" if "0 \<le> r" for r
  proof (cases "r = 0")
    case True
    then show ?thesis using ar by (simp add: ieee_def)
  next
    case False
    then have "0 < r" using that by simp
    then have "0 < a_sqrt ar r" using ar by (simp add: ieee_def)
    then show ?thesis by simp
  qed
  show ?thesis
    by (cases x) (auto simp: m_sqrt_def nonneg_def pos)
qed

lemma m_atan2_cases:
  assumes ar: "ieee ar"
  shows "m_atan2 ar (m_sqrt ar x) (m_sqrt ar y) = NaN \<or>
         (\<exists>q. m_atan2 ar (m_sqrt ar x) (m_sqrt ar y) = Fin q \<and> 0 \<le> q \<and> q \<le> 2)"
proof (cases "m_sqrt ar x = NaN \<or> m_sqrt ar y = NaN")
  case True
  then show ?thesis by (auto simp: m_atan2_def)
next
  case False
  then have n: "nonneg (m_sqrt ar x)" "nonneg (m_sqrt ar y)"
    using m_sqrt_cases [OF ar, of x] m_sqrt_cases [OF ar, of y] by auto
  then have "0 \<le> a_atan2 ar (m_sqrt ar x) (m_sqrt ar y) \<and> a_atan2 ar (m_sqrt ar x) (m_sqrt ar y) \<le> 2"
    using ar by (simp add: ieee_def)
  then show ?thesis using False by (simp add: m_atan2_def)
qed

lemma never_negative:
  assumes ar: "ieee ar"
  shows "calculateDistanceIn ar A B = NaN \<or>
         (\<exists>q. calculateDistanceIn ar A B = Fin q \<and> 0 \<le> q \<and> q \<le> 25484)"
proof -
  define a where "a = fl_add ar
                (fl_mul ar (m_sin ar (fl_div ar (toRadIn ar (fl_sub ar (nlat B) (nlat A))) (Fin 2)))
                   (m_sin ar (fl_div ar (toRadIn ar (fl_sub ar (nlat B) (nlat A))) (Fin 2))))
                (fl_mul ar
                   (fl_mul ar
                      (fl_mul ar (m_sin ar (fl_div ar (toRadIn ar (fl_sub ar (nlng B) (nlng A))) (Fin 2)))
                         (m_sin ar (fl_div ar (toRadIn ar (fl_sub ar (nlng B) (nlng A))) (Fin 2))))
                      (m_cos ar (toRadIn ar (nlat A))))
                   (m_cos ar (toRadIn ar (nlat B))))"
  define t where "t = m_atan2 ar (m_sqrt ar a) (m_sqrt ar (fl_sub ar (Fin 1) a))"
  have d: "calculateDistanceIn ar A B = fl_mul ar (Fin 6371) (fl_mul ar (Fin 2) t)"
    by (simp add: calculateDistanceIn_def Let_def a_def t_def)
  from m_atan2_cases [OF ar, of a "fl_sub ar (Fin 1) a"]
  have "t = NaN \<or> (\<exists>q. t = Fin q \<and> 0 \<le> q \<and> q \<le> 2)" by (simp add: t_def)
  then show ?thesis
  proof
    assume "t = NaN"
    then show ?thesis by (simp add: d nan_absorbs)
  next
    assume "\<exists>q. t = Fin q \<and> 0 \<le> q \<and> q \<le> 2"
    then obtain q where q: "t = Fin q" "0 \<le> q" "q \<le> 2" by blast
    have "0 \<le> 2 * q" "2 * q \<le> of_int 4" using q by simp_all
    from rnd_nonneg_range [OF ar this] obtain c where c: "rnd ar (2 * q) = Fin c" "0 \<le> c" "c \<le> 4"
      by auto
    have "0 \<le> 6371 * c" "6371 * c \<le> of_int 25484" using c by simp_all
    from rnd_nonneg_range [OF ar this] obtain v where v: "rnd ar (6371 * c) = Fin v" "0 \<le> v" "v \<le> 25484"
      by auto
    have "calculateDistanceIn ar A B = Fin v"
      by (simp add: d q fl_mul_def fl_Fin c v)
    then show ?thesis using v by blast
  qed
qed

subsection \<open>The exact arithmetic\<close>

lemma exactArith_simps:
  "rnd exactArith = Fin" "a_PI exactArith = pi" "a_sin exactArith = sin" "a_cos exactArith = cos"
  "a_sqrt exactArith = sqrt" "a_atan2 exactArith = exact_atan2"
  by (simp_all add: exactArith_def)

lemma exact_atan2_range:
  assumes "nonneg y" "nonneg x"
  shows "0 \<le> exact_atan2 y x \<and> exact_atan2 y x \<le> 2"
proof -
  have p: "pi / 2 \<le> 2" "0 \<le> pi / 4" "pi / 4 \<le> 2" "0 \<le> pi / 2" using pi_less_4 pi_ge_zero by simp_all
  show ?thesis
  proof (cases y)
    case (Fin a)
    note y = this
    show ?thesis
    proof (cases x)
      case (Fin b)
      then have "0 \<le> a" "0 \<le> b" using assms y by (simp_all add: nonneg_def)
      from atan2_quadrant1 [OF this] show ?thesis using p y Fin by simp
    next
      case PosInf
      then show ?thesis using y by simp
    next
      case NaN
      then show ?thesis using assms by (simp add: nonneg_def)
    next
      case NegInf
      then show ?thesis using assms by (simp add: nonneg_def)
    qed
  next
    case PosInf
    note y = this
    show ?thesis
    proof (cases x)
      case (Fin b)
      then show ?thesis using y p by simp
    next
      case PosInf
      then show ?thesis using y p by simp
    next
      case NaN
      then show ?thesis using assms by (simp add: nonneg_def)
    next
      case NegInf
      then show ?thesis using assms by (simp add: nonneg_def)
    qed
  next
    case NaN
    then show ?thesis using assms by (simp add: nonneg_def)
  next
    case NegInf
    then show ?thesis using assms by (simp add: nonneg_def)
  qed
qed

lemma ieee_exactArith: "ieee exactArith"
  unfolding ieee_def exactArith_simps
proof (intro conjI allI impI)
  fix r s :: real
  assume "r \<le> s"
  then show "js_le (Fin r) (Fin s)" by (simp add: js_le_def)
next
  show "pi \<le> 4" using pi_less_4 by simp
next
  fix x :: real
  assume "0 < x"
  then show "exact_atan2 (Fin 0) (Fin x) = 0" by (simp add: atan2_def)
next
  fix y x
  assume "nonneg y \<and> nonneg x"
  then show "0 \<le> exact_atan2 y x" using exact_atan2_range [of y x] by blast
next
  fix y x
  assume "nonneg y \<and> nonneg x"
  then show "exact_atan2 y x \<le> 2" using exact_atan2_range [of y x] by blast
qed simp_all

lemma fl_exact: "fl exactArith x = x"
  by (cases x) (simp_all add: fl_def exactArith_simps)

lemma toRadIn_exact: "toRadIn exactArith (Fin v) = Fin (toRad v)"
  by (simp add: toRadIn_def fl_mul_def fl_div_def fl_exact exactArith_simps toRad_def)

lemma exact_ops:
  "fl_sub exactArith (Fin x) (Fin y) = Fin (x - y)"
  "fl_add exactArith (Fin x) (Fin y) = Fin (x + y)"
  "fl_mul exactArith (Fin x) (Fin y) = Fin (x * y)"
  "fl_div exactArith (Fin x) (Fin 2) = Fin (x / 2)"
  "m_sin exactArith (Fin x) = Fin (sin x)"
  "m_cos exactArith (Fin x) = Fin (cos x)"
  "0 \<le> x \<Longrightarrow> m_sqrt exactArith (Fin x) = Fin (sqrt x)"
  "m_atan2 exactArith (Fin y) (Fin x) = Fin (atan2 y x)"
  by (simp_all add: fl_sub_def fl_add_def fl_mul_def fl_div_def fl_exact m_sin_def m_cos_def
      m_sqrt_def m_atan2_def exactArith_simps)

lemma exact_value:
  "calculateDistanceIn exactArith (numLoc (Fin la1) (Fin lo1)) (numLoc (Fin la2) (Fin lo2)) =
   Fin (calculateDistance (point la1 lo1) (point la2 lo2))"
proof -
  define a where "a = hav_a (point la1 lo1) (point la2 lo2)"
  have r: "0 \<le> a" "0 \<le> 1 - a"
    using hav_a_range [of "point la1 lo1" "point la2 lo2"] by (simp_all add: a_def)
  have a: "sin (toRad (la2 - la1) / 2) * sin (toRad (la2 - la1) / 2) +
           sin (toRad (lo2 - lo1) / 2) * sin (toRad (lo2 - lo1) / 2) * cos (toRad la1) * cos (toRad la2) = a"
    by (simp add: a_def hav_a_def point_def Let_def)
  have d: "calculateDistance (point la1 lo1) (point la2 lo2) = 6371 * (2 * atan2 (sqrt a) (sqrt (1 - a)))"
    by (simp add: calculateDistance_def Let_def a_def)
  have "calculateDistanceIn exactArith (numLoc (Fin la1) (Fin lo1)) (numLoc (Fin la2) (Fin lo2)) =
        fl_mul exactArith (Fin 6371)
          (fl_mul exactArith (Fin 2)
             (m_atan2 exactArith (m_sqrt exactArith (Fin a)) (m_sqrt exactArith (fl_sub exactArith (Fin 1) (Fin a)))))"
    unfolding calculateDistanceIn_def Let_def numLoc_def
    by (simp only: NumLocation.simps toRadIn_exact exact_ops(1-6) a)
  also have "\<dots> = Fin (6371 * (2 * atan2 (sqrt a) (sqrt (1 - a))))"
    by (simp only: exact_ops(1-6) exact_ops(7) [OF r(1)] exact_ops(7) [OF r(2)] exact_ops(8))
  finally show ?thesis unfolding d .
qed

lemma exact_formula:
  "calculateDistance (point la1 lo1) (point la2 lo2) =
   6371 * (2 * arcsin (sqrt ((sin ((la2 - la1) * pi / 180 / 2))\<^sup>2 +
                             (sin ((lo2 - lo1) * pi / 180 / 2))\<^sup>2 *
                             cos (la1 * pi / 180) * cos (la2 * pi / 180))))"
  unfolding calculateDistance_haversine hav_a_def point_def toRad_def Let_def power2_eq_square
  by simp

lemma antipodal_value:
  "6371 * (2 * arcsin (sqrt ((sin ((0 - 0) * pi / 180 / 2))\<^sup>2 +
                             (sin ((180 - 0) * pi / 180 / 2))\<^sup>2 *
                             cos (0 * pi / 180) * cos (0 * pi / 180)))) = 6371 * pi"
  by simp

text \<open>
  C8, amended. In every arithmetic of doubles that has the facts \<open>ieee\<close>: the distance
  from a point to itself is exactly 0 when the latitude of the point lies in
  \<open>[-90, 90]\<close> (and its longitude is any finite number); the result is \<^verbatim>\<open>NaN\<close> as soon as
  a latitude or a longitude of one of the two points is \<^verbatim>\<open>NaN\<close> or an infinity; and the
  result is never negative: it is \<^verbatim>\<open>NaN\<close> or a number of \<open>[0, 25484]\<close>, four times the
  radius. The value computed is that of the haversine formula with the radius 6371 km:
  in the exact arithmetic, which is one of these arithmetics, the result is
  \<open>2 R arcsin (sqrt a)\<close> with \<open>a = sin\<^sup>2 (dLat / 2) + sin\<^sup>2 (dLon / 2) cos lat1 cos lat2\<close> on
  the angles \<open>x * pi / 180\<close>; there it is the same for \<open>(A, B)\<close> and \<open>(B, A)\<close>, and it is
  the distance \<open>calculateDistance\<close> that the station lists are ranked by. That the two
  doubles computed for \<open>(A, B)\<close> and \<open>(B, A)\<close> are equal is not stated: the product with
  the two cosines is rounded after the cosine of the first point, then after that of
  the second, and the two orders may round differently.
\<close>

theorem calculateDistanceIn_properties:
  assumes "ieee ar"
  shows "(\<bar>la\<bar> \<le> 90 \<longrightarrow>
            calculateDistanceIn ar (numLoc (Fin la) (Fin lo)) (numLoc (Fin la) (Fin lo)) = Fin 0) \<and>
         (\<not> isFinite (nlat C) \<or> \<not> isFinite (nlng C) \<or> \<not> isFinite (nlat D) \<or> \<not> isFinite (nlng D) \<longrightarrow>
            calculateDistanceIn ar C D = NaN) \<and>
         (calculateDistanceIn ar A B = NaN \<or>
            (\<exists>q. calculateDistanceIn ar A B = Fin q \<and> 0 \<le> q \<and> q \<le> 25484)) \<and>
         ieee exactArith \<and>
         calculateDistanceIn exactArith (numLoc (Fin la1) (Fin lo1)) (numLoc (Fin la2) (Fin lo2)) =
           Fin (6371 * (2 * arcsin (sqrt ((sin ((la2 - la1) * pi / 180 / 2))\<^sup>2 +
                                          (sin ((lo2 - lo1) * pi / 180 / 2))\<^sup>2 *
                                          cos (la1 * pi / 180) * cos (la2 * pi / 180))))) \<and>
         calculateDistanceIn exactArith (numLoc (Fin la1) (Fin lo1)) (numLoc (Fin la2) (Fin lo2)) =
           calculateDistanceIn exactArith (numLoc (Fin la2) (Fin lo2)) (numLoc (Fin la1) (Fin lo1)) \<and>
         calculateDistanceIn exactArith (numLoc (Fin la1) (Fin lo1)) (numLoc (Fin la2) (Fin lo2)) =
           Fin (calculateDistance (point la1 lo1) (point la2 lo2))"
proof -
  have 1: "\<bar>la\<bar> \<le> 90 \<longrightarrow>
            calculateDistanceIn ar (numLoc (Fin la) (Fin lo)) (numLoc (Fin la) (Fin lo)) = Fin 0"
    using same_point_zero [OF assms] by blast
  have 2: "\<not> isFinite (nlat C) \<or> \<not> isFinite (nlng C) \<or> \<not> isFinite (nlat D) \<or> \<not> isFinite (nlng D) \<longrightarrow>
            calculateDistanceIn ar C D = NaN"
    using nonfinite_nan [OF assms] by blast
  have 5: "calculateDistanceIn exactArith (numLoc (Fin la1) (Fin lo1)) (numLoc (Fin la2) (Fin lo2)) =
           Fin (6371 * (2 * arcsin (sqrt ((sin ((la2 - la1) * pi / 180 / 2))\<^sup>2 +
                                          (sin ((lo2 - lo1) * pi / 180 / 2))\<^sup>2 *
                                          cos (la1 * pi / 180) * cos (la2 * pi / 180)))))"
    unfolding exact_value exact_formula ..
  have 6: "calculateDistanceIn exactArith (numLoc (Fin la1) (Fin lo1)) (numLoc (Fin la2) (Fin lo2)) =
           calculateDistanceIn exactArith (numLoc (Fin la2) (Fin lo2)) (numLoc (Fin la1) (Fin lo1))"
    unfolding exact_value calculateDistance_sym [of "point la1 lo1"] ..
  from 1 2 never_negative [OF assms, of A B] ieee_exactArith 5 6 exact_value [of la1 lo1 la2 lo2]
  show ?thesis by blast
qed

text \<open>
  In the exact arithmetic: Karachi and itself; an infinite latitude; and the two ends
  of a diameter on the equator, half the circumference apart in both orders.
\<close>

theorem calculateDistanceIn_properties_witness:
  "calculateDistanceIn exactArith (numLoc (Fin 24.8607) (Fin 67.0011)) (numLoc (Fin 24.8607) (Fin 67.0011)) = Fin 0 \<and>
   calculateDistanceIn exactArith (numLoc PosInf (Fin 0)) (numLoc (Fin 0) (Fin 0)) = NaN \<and>
   calculateDistanceIn exactArith (numLoc (Fin 0) (Fin 0)) (numLoc (Fin 0) (Fin 180)) = Fin (6371 * pi) \<and>
   calculateDistanceIn exactArith (numLoc (Fin 0) (Fin 180)) (numLoc (Fin 0) (Fin 0)) = Fin (6371 * pi) \<and>
   0 \<le> 6371 * pi \<and> 6371 * pi \<le> 25484"
proof -
  note t = calculateDistanceIn_properties [OF ieee_exactArith]
  have a: "calculateDistanceIn exactArith (numLoc (Fin 24.8607) (Fin 67.0011)) (numLoc (Fin 24.8607) (Fin 67.0011)) = Fin 0"
    using t [where la = "24.8607" and lo = "67.0011"] by simp
  have "\<not> isFinite (nlat (numLoc PosInf (Fin 0)))" by (simp add: isFinite_def numLoc_def)
  then have b: "calculateDistanceIn exactArith (numLoc PosInf (Fin 0)) (numLoc (Fin 0) (Fin 0)) = NaN"
    using t [where C = "numLoc PosInf (Fin 0)" and D = "numLoc (Fin 0) (Fin 0)"] by blast
  note u = t [where ?la1.0 = 0 and ?lo1.0 = 0 and ?la2.0 = 0 and ?lo2.0 = 180
      and A = "numLoc (Fin 0) (Fin 0)" and B = "numLoc (Fin 0) (Fin 180)", unfolded antipodal_value]
  have c: "calculateDistanceIn exactArith (numLoc (Fin 0) (Fin 0)) (numLoc (Fin 0) (Fin 180)) = Fin (6371 * pi)"
    using u by blast
  have d: "calculateDistanceIn exactArith (numLoc (Fin 0) (Fin 180)) (numLoc (Fin 0) (Fin 0)) = Fin (6371 * pi)"
    using u c by metis
  have "Fin (6371 * pi) = NaN \<or> (\<exists>q. Fin (6371 * pi) = Fin q \<and> 0 \<le> q \<and> q \<le> 25484)"
    using u unfolding c by blast
  then have e: "0 \<le> 6371 * pi \<and> 6371 * pi \<le> 25484" by simp
  from a b c d e show ?thesis by blast
qed

text \<open>
  C8 as stated fails on a coordinate that is \<^verbatim>\<open>NaN\<close> or an infinity, which a float may
  be. Whatever the arithmetic, the distance from the point \<open>(NaN, 0)\<close> to itself is
  \<^verbatim>\<open>NaN\<close>, so \<^verbatim>\<open>distance(A, A) == 0\<close> is false; with \<open>B = (0, 0)\<close> the comparison
  \<^verbatim>\<open>distance(A, B) == distance(B, A)\<close> is false, both sides being \<^verbatim>\<open>NaN\<close>, and the
  result is not \<^verbatim>\<open>>= 0\<close>; and the distance from \<open>(Infinity, 0)\<close> to itself is \<^verbatim>\<open>NaN\<close>.
\<close>

theorem nan_coordinate_counterexample:
  "(\<forall>ar. calculateDistanceIn ar (numLoc NaN (Fin 0)) (numLoc NaN (Fin 0)) = NaN) \<and>
   (\<forall>ar. \<not> js_eq (calculateDistanceIn ar (numLoc NaN (Fin 0)) (numLoc NaN (Fin 0))) (Fin 0)) \<and>
   (\<forall>ar. \<not> js_eq (calculateDistanceIn ar (numLoc NaN (Fin 0)) (numLoc (Fin 0) (Fin 0)))
                  (calculateDistanceIn ar (numLoc (Fin 0) (Fin 0)) (numLoc NaN (Fin 0)))) \<and>
   (\<forall>ar. \<not> js_le (Fin 0) (calculateDistanceIn ar (numLoc NaN (Fin 0)) (numLoc (Fin 0) (Fin 0)))) \<and>
   (\<forall>ar. calculateDistanceIn ar (numLoc PosInf (Fin 0)) (numLoc PosInf (Fin 0)) = NaN)"
  by (simp add: nan_latitude inf_latitude js_eq_def js_le_def)

section \<open>The cost estimate and its guard\<close>

lemma js_gt_zero_iff: "js_gt m (Fin 0) \<longleftrightarrow> (\<exists>x. m = Fin x \<and> 0 < x) \<or> m = PosInf"
  by (cases m) (simp_all add: js_gt_def)

lemma estimatedCostOf_positive: "0 < m \<Longrightarrow> estimatedCostOf d (Fin m) p = (d / m) * p"
  by (simp add: estimatedCostOf_def js_gt_def)

lemma estimatedCostOf_skipped: "\<not> js_gt m (Fin 0) \<Longrightarrow> estimatedCostOf d m p = 0"
  by (simp add: estimatedCostOf_def)

lemma handlePlanTrip_cases:
  "handlePlanTrip ml dir pl data = MapsNotLoaded \<or>
   (\<exists>e. handlePlanTrip ml dir pl data = PlanFailed e) \<or>
   (\<exists>d t path. handlePlanTrip ml dir pl data =
      Planned \<lparr>tripData = data, trip_distanceKm = d,
        estimatedCost = estimatedCostOf d (averageMileage data) (MOCKED_FUEL_PRICES (fuelType data)),
        estimatedTime = t, ecoTips = [], nearbyStations = nearbyStationsOf (destination data) pl,
        routePath = path\<rparr>)"
  by (auto simp: handlePlanTrip_def Let_def split: sum.splits list.splits)

lemma handlePlanTrip_planned_cost:
  "handlePlanTrip ml dir pl data = Planned r \<Longrightarrow>
   estimatedCost r = estimatedCostOf (trip_distanceKm r) (averageMileage data) (MOCKED_FUEL_PRICES (fuelType data))"
  by (auto simp: handlePlanTrip_def Let_def split: sum.splits list.splits if_splits)

lemma planFailed_mileage:
  "planFailed (handlePlanTrip ml dir pl (data\<lparr>averageMileage := m\<rparr>)) =
   planFailed (handlePlanTrip ml dir pl data)"
  by (auto simp: handlePlanTrip_def planFailed_def Let_def split: sum.splits list.splits)

lemma handlePlanTrip_ok:
  "handlePlanTrip True (Inr (okDirections metres)) pl data =
     Planned \<lparr>tripData = data, trip_distanceKm = metres / 1000,
        estimatedCost = estimatedCostOf (metres / 1000) (averageMileage data) (MOCKED_FUEL_PRICES (fuelType data)),
        estimatedTime = ''2 hours'', ecoTips = [], nearbyStations = nearbyStationsOf (destination data) pl,
        routePath = []\<rparr>"
  by (simp add: handlePlanTrip_def okDirections_def Let_def)

text \<open>
  C5: for a distance that is not negative, a mileage above zero and a unit price above
  zero, the estimated cost is the distance divided by the mileage, times the unit price
  (exact in the arithmetic of the model, as in the specification's own estimator), and a
  distance of zero costs zero.
\<close>

theorem estimatedCost_formula:
  assumes "0 \<le> d" "0 < m" "0 < p"
  shows "estimatedCostOf d (Fin m) p = (d / m) * p \<and>
         estimatedCostOf 0 (Fin m) p = 0 \<and>
         spec_cost d m p = Inr (estimatedCostOf d (Fin m) p)"
  using assms by (simp add: estimatedCostOf_positive spec_cost_def)

text \<open>150 km at 15 km per litre and 280 per litre cost 2800.\<close>

theorem estimatedCost_formula_witness:
  "estimatedCostOf 150 (Fin 15) 280 = 2800 \<and> estimatedCostOf 0 (Fin 15) 280 = 0 \<and>
   spec_cost 150 15 280 = Inr (estimatedCostOf 150 (Fin 15) 280)"
  using estimatedCost_formula [of 150 15 280] by simp

text \<open>
  C10: when \<^verbatim>\<open>averageMileage\<close> is not strictly positive (zero, negative or \<^verbatim>\<open>NaN\<close>:
  the comparison \<^verbatim>\<open>> 0\<close> is false), the cost computation is skipped. The estimate is
  zero whatever the distance and the price, every trip result that the handler produces
  has the estimated cost zero, it does produce one when the route is resolved, and the
  handler fails on exactly the inputs on which it fails with the mileage 15: the mileage
  raises no error.
\<close>

theorem mileage_guard_skips_cost:
  assumes "\<not> js_gt (averageMileage data) (Fin 0)"
  shows "estimatedCostOf dKm (averageMileage data) price = 0 \<and>
         (\<forall>r. handlePlanTrip ml dir pl data = Planned r \<longrightarrow> estimatedCost r = 0) \<and>
         plannedCost (handlePlanTrip True (Inr (okDirections metres)) pl data) = Some 0 \<and>
         planFailed (handlePlanTrip ml dir pl data) =
           planFailed (handlePlanTrip ml dir pl (data\<lparr>averageMileage := Fin 15\<rparr>))"
proof -
  have zero: "estimatedCostOf x (averageMileage data) y = 0" for x y
    using assms by (rule estimatedCostOf_skipped)
  have "estimatedCost r = 0" if "handlePlanTrip ml dir pl data = Planned r" for r
    using handlePlanTrip_planned_cost [OF that] zero by simp
  moreover have "plannedCost (handlePlanTrip True (Inr (okDirections metres)) pl data) = Some 0"
    by (simp add: handlePlanTrip_ok plannedCost_def zero)
  ultimately show ?thesis
    using zero planFailed_mileage [where ml = ml and dir = dir and pl = pl and data = data and m = "Fin 15"] by blast
qed

text \<open>The mileages \<^verbatim>\<open>NaN\<close>, 0 and -1 on a resolved route of 120 km.\<close>

theorem mileage_guard_skips_cost_witness:
  "plannedCost (handlePlanTrip True (Inr (okDirections 120000)) searchFailed (tripWith NaN (point 31.5204 74.3587))) = Some 0 \<and>
   plannedCost (handlePlanTrip True (Inr (okDirections 120000)) searchFailed (tripWith (Fin 0) (point 31.5204 74.3587))) = Some 0 \<and>
   plannedCost (handlePlanTrip True (Inr (okDirections 120000)) searchFailed (tripWith (Fin (- 1)) (point 31.5204 74.3587))) = Some 0"
proof -
  have "\<not> js_gt (averageMileage (tripWith NaN (point 31.5204 74.3587))) (Fin 0)"
       "\<not> js_gt (averageMileage (tripWith (Fin 0) (point 31.5204 74.3587))) (Fin 0)"
       "\<not> js_gt (averageMileage (tripWith (Fin (- 1)) (point 31.5204 74.3587))) (Fin 0)"
    by (simp_all add: tripWith_def js_gt_def)
  then show ?thesis
    using mileage_guard_skips_cost by blast
qed




section \<open>The history store\<close>


text \<open>
  The entry that is read back for an entry that was written: its strings and its finite
  numbers as they were, \<^verbatim>\<open>null\<close> for a number that is not finite.
\<close>

lemma number_read_back: "JSON_parse (JSON_stringify (VNumber n)) = asStored n"
  by (cases n) (simp_all add: asStored_def)

lemma entry_read_back:
  "JSON_parse (JSON_stringify (entryValue e)) =
     VObject [(''id'', VString (entry_id e)),
              (''date'', VString (date e)),
              (''carModel'', VString (entry_carModel e)),
              (''startLocationName'', VString (startLocationName e)),
              (''destinationName'', VString (destinationName e)),
              (''distanceKm'', asStored (entry_distanceKm e)),
              (''estimatedCost'', asStored (entry_estimatedCost e))]"
  using number_read_back [of "entry_distanceKm e"] number_read_back [of "entry_estimatedCost e"]
  by (simp add: entryValue_def)


lemma entry_read_back_differs:
  assumes "\<not> isFinite (entry_estimatedCost e) \<or> \<not> isFinite (entry_distanceKm e)"
  shows "JSON_parse (JSON_stringify (entryValue e)) \<noteq> entryValue e"
proof -
  have "asStored (entry_estimatedCost e) \<noteq> VNumber (entry_estimatedCost e) \<or>
        asStored (entry_distanceKm e) \<noteq> VNumber (entry_distanceKm e)"
    using assms
    by (cases "entry_estimatedCost e"; cases "entry_distanceKm e") (simp_all add: isFinite_def asStored_def)
  then show ?thesis by (simp only: entry_read_back) (auto simp: entryValue_def)
qed




lemma other_keys_kept:
  "k \<noteq> ''tripHistory'' \<Longrightarrow>
     storeAfter localStorage (handleSaveTrip nowId nowDate result localStorage) k = localStorage k"
  by (simp add: handleSaveTrip_def Let_def storeAfter_def split: option.splits)




section \<open>The cheapest station\<close>

text \<open>
  The marker loop keeps the first station of minimal price: every station before it is
  strictly dearer, no station after it is cheaper.
\<close>

lemma cheapestFrom_is_Some: "\<exists>c'. cheapestFrom (Some c) xs = Some c'"
  by (induction xs arbitrary: c) simp_all

lemma cheapestFrom_Some:
  assumes "cheapestFrom (Some c) xs = Some r"
  shows "(r = c \<and> (\<forall>s\<in>set xs. fuelPrice c \<le> fuelPrice s)) \<or>
      (\<exists>ys zs. xs = ys @ r # zs \<and> fuelPrice r < fuelPrice c \<and>
         (\<forall>s\<in>set ys. fuelPrice r < fuelPrice s) \<and> (\<forall>s\<in>set zs. fuelPrice r \<le> fuelPrice s))"
  using assms
proof (induction xs arbitrary: c)
  case Nil
  then show ?case by simp
next
  case (Cons x xs)
  show ?case
  proof (cases "fuelPrice x < fuelPrice c")
    case True
    with Cons.prems have "cheapestFrom (Some x) xs = Some r" by simp
    from Cons.IH [OF this] show ?thesis
    proof (elim disjE conjE exE)
      assume 1: "r = x" and 2: "\<forall>s\<in>set xs. fuelPrice x \<le> fuelPrice s"
      have "x # xs = [] @ r # xs" unfolding 1 by simp
      moreover have "fuelPrice r < fuelPrice c" unfolding 1 by (rule True)
      moreover have "\<forall>s\<in>set xs. fuelPrice r \<le> fuelPrice s" unfolding 1 by (rule 2)
      moreover have "\<forall>s\<in>set []. fuelPrice r < fuelPrice s" by simp
      ultimately show ?thesis by blast
    next
      fix ys zs
      assume 1: "xs = ys @ r # zs" and 2: "fuelPrice r < fuelPrice x"
        and 3: "\<forall>s\<in>set ys. fuelPrice r < fuelPrice s" and 4: "\<forall>s\<in>set zs. fuelPrice r \<le> fuelPrice s"
      have "x # xs = (x # ys) @ r # zs" unfolding 1 by simp
      moreover have "fuelPrice r < fuelPrice c" using 2 True by (rule less_trans)
      moreover have "\<forall>s\<in>set (x # ys). fuelPrice r < fuelPrice s" using 2 3 by simp
      ultimately show ?thesis using 4 by blast
    qed
  next
    case False
    with Cons.prems have "cheapestFrom (Some c) xs = Some r" by simp
    from Cons.IH [OF this] show ?thesis
    proof (elim disjE conjE exE)
      assume 1: "r = c" and 2: "\<forall>s\<in>set xs. fuelPrice c \<le> fuelPrice s"
      have "\<forall>s\<in>set (x # xs). fuelPrice c \<le> fuelPrice s" using 2 False by simp
      with 1 show ?thesis by blast
    next
      fix ys zs
      assume 1: "xs = ys @ r # zs" and 2: "fuelPrice r < fuelPrice c"
        and 3: "\<forall>s\<in>set ys. fuelPrice r < fuelPrice s" and 4: "\<forall>s\<in>set zs. fuelPrice r \<le> fuelPrice s"
      have "x # xs = (x # ys) @ r # zs" unfolding 1 by simp
      moreover have "fuelPrice r < fuelPrice x" using 2 False by simp
      then have "\<forall>s\<in>set (x # ys). fuelPrice r < fuelPrice s" using 3 by simp
      ultimately show ?thesis using 2 4 by blast
    qed
  qed
qed

lemma cheapestStation_empty: "cheapestStation [] = None"
  by (simp add: cheapestStation_def)

lemma cheapestStation_first_minimum:
  assumes "cheapestStation (x # xs) = Some r"
  shows "\<exists>ys zs. x # xs = ys @ r # zs \<and>
       (\<forall>s\<in>set ys. fuelPrice r < fuelPrice s) \<and> (\<forall>s\<in>set zs. fuelPrice r \<le> fuelPrice s)"
proof -
  from assms have "cheapestFrom (Some x) xs = Some r" by (simp add: cheapestStation_def)
  from cheapestFrom_Some [OF this] show ?thesis
  proof (elim disjE conjE exE)
    assume 1: "r = x" and 2: "\<forall>s\<in>set xs. fuelPrice x \<le> fuelPrice s"
    have "x # xs = [] @ r # xs" unfolding 1 by simp
    moreover have "\<forall>s\<in>set xs. fuelPrice r \<le> fuelPrice s" unfolding 1 by (rule 2)
    moreover have "\<forall>s\<in>set []. fuelPrice r < fuelPrice s" by simp
    ultimately show ?thesis by blast
  next
    fix ys zs
    assume 1: "xs = ys @ r # zs" and 2: "fuelPrice r < fuelPrice x"
      and 3: "\<forall>s\<in>set ys. fuelPrice r < fuelPrice s" and 4: "\<forall>s\<in>set zs. fuelPrice r \<le> fuelPrice s"
    have "x # xs = (x # ys) @ r # zs" unfolding 1 by simp
    moreover have "\<forall>s\<in>set (x # ys). fuelPrice r < fuelPrice s" using 2 3 by simp
    ultimately show ?thesis using 4 by blast
  qed
qed

text \<open>
  The \<^verbatim>\<open>reduce\<close> of the card list keeps the last station of minimal price: on equal
  prices \<^verbatim>\<open>prev.fuelPrice < curr.fuelPrice\<close> is false and \<^verbatim>\<open>curr\<close> is taken.
\<close>

lemma reduce_last_min:
  assumes "foldl (\<lambda>prev curr. if fuelPrice prev < fuelPrice curr then prev else curr) c xs = r"
  shows "(r = c \<and> (\<forall>s\<in>set xs. fuelPrice c < fuelPrice s)) \<or>
   (\<exists>ys zs. xs = ys @ r # zs \<and> fuelPrice r \<le> fuelPrice c \<and>
      (\<forall>s\<in>set ys. fuelPrice r \<le> fuelPrice s) \<and> (\<forall>s\<in>set zs. fuelPrice r < fuelPrice s))"
  using assms
proof (induction xs arbitrary: c)
  case Nil
  then show ?case by simp
next
  case (Cons x xs)
  show ?case
  proof (cases "fuelPrice c < fuelPrice x")
    case True
    with Cons.prems
    have "foldl (\<lambda>prev curr. if fuelPrice prev < fuelPrice curr then prev else curr) c xs = r"
      by simp
    from Cons.IH [OF this] show ?thesis
    proof (elim disjE conjE exE)
      assume 1: "r = c" and 2: "\<forall>s\<in>set xs. fuelPrice c < fuelPrice s"
      have "\<forall>s\<in>set (x # xs). fuelPrice c < fuelPrice s" using 2 True by simp
      with 1 show ?thesis by blast
    next
      fix ys zs
      assume 1: "xs = ys @ r # zs" and 2: "fuelPrice r \<le> fuelPrice c"
        and 3: "\<forall>s\<in>set ys. fuelPrice r \<le> fuelPrice s" and 4: "\<forall>s\<in>set zs. fuelPrice r < fuelPrice s"
      have "x # xs = (x # ys) @ r # zs" unfolding 1 by simp
      moreover have "fuelPrice r \<le> fuelPrice x" using 2 True by simp
      then have "\<forall>s\<in>set (x # ys). fuelPrice r \<le> fuelPrice s" using 3 by simp
      ultimately show ?thesis using 2 4 by blast
    qed
  next
    case False
    with Cons.prems
    have "foldl (\<lambda>prev curr. if fuelPrice prev < fuelPrice curr then prev else curr) x xs = r"
      by simp
    from Cons.IH [OF this] show ?thesis
    proof (elim disjE conjE exE)
      assume 1: "r = x" and 2: "\<forall>s\<in>set xs. fuelPrice x < fuelPrice s"
      have "x # xs = [] @ r # xs" unfolding 1 by simp
      moreover have "fuelPrice r \<le> fuelPrice c" unfolding 1 using False by simp
      moreover have "\<forall>s\<in>set xs. fuelPrice r < fuelPrice s" unfolding 1 by (rule 2)
      moreover have "\<forall>s\<in>set []. fuelPrice r \<le> fuelPrice s" by simp
      ultimately show ?thesis by blast
    next
      fix ys zs
      assume 1: "xs = ys @ r # zs" and 2: "fuelPrice r \<le> fuelPrice x"
        and 3: "\<forall>s\<in>set ys. fuelPrice r \<le> fuelPrice s" and 4: "\<forall>s\<in>set zs. fuelPrice r < fuelPrice s"
      have "x # xs = (x # ys) @ r # zs" unfolding 1 by simp
      moreover have "fuelPrice r \<le> fuelPrice c" using 2 False by simp
      moreover have "\<forall>s\<in>set (x # ys). fuelPrice r \<le> fuelPrice s" using 2 3 by simp
      ultimately show ?thesis using 4 by blast
    qed
  qed
qed

lemma cheapestByReduce_empty: "cheapestByReduce [] = None"
  by (simp add: cheapestByReduce_def)

lemma cheapestByReduce_last_minimum:
  assumes "cheapestByReduce (x # xs) = Some r"
  shows "\<exists>ys zs. x # xs = ys @ r # zs \<and>
       (\<forall>s\<in>set ys. fuelPrice r \<le> fuelPrice s) \<and> (\<forall>s\<in>set zs. fuelPrice r < fuelPrice s)"
proof -
  from assms
  have "foldl (\<lambda>prev curr. if fuelPrice prev < fuelPrice curr then prev else curr) x xs = r"
    by (simp add: cheapestByReduce_def)
  from reduce_last_min [OF this] show ?thesis
  proof (elim disjE conjE exE)
    assume 1: "r = x" and 2: "\<forall>s\<in>set xs. fuelPrice x < fuelPrice s"
    have "x # xs = [] @ r # xs" unfolding 1 by simp
    moreover have "\<forall>s\<in>set xs. fuelPrice r < fuelPrice s" unfolding 1 by (rule 2)
    moreover have "\<forall>s\<in>set []. fuelPrice r \<le> fuelPrice s" by simp
    ultimately show ?thesis by blast
  next
    fix ys zs
    assume 1: "xs = ys @ r # zs" and 2: "fuelPrice r \<le> fuelPrice x"
      and 3: "\<forall>s\<in>set ys. fuelPrice r \<le> fuelPrice s" and 4: "\<forall>s\<in>set zs. fuelPrice r < fuelPrice s"
    have "x # xs = (x # ys) @ r # zs" unfolding 1 by simp
    moreover have "\<forall>s\<in>set (x # ys). fuelPrice r \<le> fuelPrice s" using 2 3 by simp
    ultimately show ?thesis using 4 by blast
  qed
qed

text \<open>
  C4: with two stations of the same minimal price, the marker loop marks the first, as
  the claim says, and the card list gives the badge to the second and not to the first.
\<close>

theorem cheapest_tie_marker_and_badge_differ:
  "cheapestStation [stationPriced ''a'' 280 2, stationPriced ''b'' 280 4] = Some (stationPriced ''a'' 280 2) \<and>
   cheapestByReduce [stationPriced ''a'' 280 2, stationPriced ''b'' 280 4] = Some (stationPriced ''b'' 280 4) \<and>
   isCheapest [stationPriced ''a'' 280 2, stationPriced ''b'' 280 4] (stationPriced ''a'' 280 2) \<and>
   \<not> hasCheapestBadge [stationPriced ''a'' 280 2, stationPriced ''b'' 280 4] (stationPriced ''a'' 280 2) \<and>
   hasCheapestBadge [stationPriced ''a'' 280 2, stationPriced ''b'' 280 4] (stationPriced ''b'' 280 4)"
  by (simp add: cheapestStation_def cheapestByReduce_def isCheapest_def hasCheapestBadge_def stationPriced_def)

section \<open>Sorting with a comparator that a key induces\<close>

text \<open>
  When the comparator is positive exactly where a key into a linear order decreases,
  the sort is the stable sort by that key.
\<close>

lemma js_insert_insort_key:
  fixes k :: "'a \<Rightarrow> 'k::linorder"
  assumes "\<forall>y\<in>set ys. js_gt (cmp x y) (Fin 0) = (k y < k x)"
  shows "js_insert cmp x ys = insort_key k x ys"
  using assms by (induction ys) (auto simp: not_less)

lemma js_sort_sort_key:
  fixes k :: "'a \<Rightarrow> 'k::linorder"
  assumes "\<forall>x\<in>set xs. \<forall>y\<in>set xs. js_gt (cmp x y) (Fin 0) = (k y < k x)"
  shows "js_sort cmp xs = sort_key k xs"
  using assms
proof (induction xs)
  case Nil
  then show ?case by (simp add: js_sort_def)
next
  case (Cons x xs)
  then have "js_sort cmp xs = sort_key k xs" by simp
  moreover have "\<forall>y\<in>set (sort_key k xs). js_gt (cmp x y) (Fin 0) = (k y < k x)"
    using Cons.prems by simp
  ultimately show ?case
    using js_insert_insort_key [of "sort_key k xs" cmp x k] by (simp add: js_sort_def)
qed

lemma distanceOrInfinity_cases:
  "distanceOrInfinity s = PosInf \<or> (\<exists>d. distanceOrInfinity s = Fin d \<and> distanceKm s = Some d \<and> d \<noteq> 0)"
  by (auto simp: distanceOrInfinity_def split: option.splits)

lemma byDistance_rank: "js_gt (byDistance a b) (Fin 0) = (distanceRank b < distanceRank a)"
  using distanceOrInfinity_cases [of a] distanceOrInfinity_cases [of b]
  by (auto simp: byDistance_def distanceRank_def js_gt_def)

lemma sort_byDistance: "js_sort byDistance xs = sort_key distanceRank xs"
  by (rule js_sort_sort_key) (simp add: byDistance_rank)

lemma byDistance_known:
  assumes "distanceKm a = Some da" "da \<noteq> 0" "distanceKm b = Some db" "db \<noteq> 0"
  shows "js_gt (byDistance a b) (Fin 0) = (knownDistance b < knownDistance a)"
  using assms by (simp add: byDistance_def distanceOrInfinity_def knownDistance_def js_gt_def)

lemma sort_byDistance_known:
  assumes "\<forall>s\<in>set xs. distanceKm s \<noteq> None \<and> knownDistance s \<noteq> 0"
  shows "js_sort byDistance xs = sort_key knownDistance xs"
proof (rule js_sort_sort_key, intro ballI)
  fix x y assume "x \<in> set xs" "y \<in> set xs"
  with assms have "\<exists>dx. distanceKm x = Some dx \<and> dx \<noteq> 0" "\<exists>dy. distanceKm y = Some dy \<and> dy \<noteq> 0"
    by (auto simp: knownDistance_def)
  then obtain dx dy where "distanceKm x = Some dx" "dx \<noteq> 0" "distanceKm y = Some dy" "dy \<noteq> 0"
    by blast
  then show "js_gt (byDistance x y) (Fin 0) = (knownDistance y < knownDistance x)"
    by (rule byDistance_known)
qed


section \<open>Distances of particular points\<close>

lemma toRad_simps: "toRad 0 = 0" "toRad 60 = pi / 3" "toRad 90 = pi / 2" "toRad 180 = pi"
  by (simp_all add: toRad_def)

lemma toRad_mono: "a \<le> b \<Longrightarrow> toRad a \<le> toRad b"
  by (simp add: toRad_def)

lemma toRad_abs: "\<bar>toRad v\<bar> = toRad \<bar>v\<bar>"
  by (simp add: toRad_def abs_mult)


lemma calculateDistance_same_meridian:
  assumes "0 \<le> d" "d < 180"
  shows "calculateDistance (point la lo) (point (la + d) lo) = 6371 * toRad d"
proof -
  define h where "h = toRad d / 2"
  have h: "0 \<le> h" "h < pi / 2"
    using assms by (simp_all add: h_def toRad_def)
  have a: "hav_a (point la lo) (point (la + d) lo) = sin h * sin h"
    by (simp add: hav_a_def point_def Let_def h_def toRad_simps)
  have s: "0 \<le> sin h" using h by (simp add: sin_ge_zero)
  have c: "0 < cos h" using h by (simp add: cos_gt_zero_pi)
  have "1 - sin h * sin h = cos h * cos h"
    using sin_cos_squared_add [of h] by (simp add: power2_eq_square)
  then have "sqrt (1 - sin h * sin h) = cos h" using c by simp
  moreover have "sqrt (sin h * sin h) = sin h" using s by simp
  moreover have "arctan (sin h / cos h) = h"
    using arctan_tan [of h] h by (simp add: tan_def)
  ultimately have "atan2 (sqrt (sin h * sin h)) (sqrt (1 - sin h * sin h)) = h"
    using c by (simp add: atan2_def)
  then show ?thesis by (simp add: calculateDistance_def Let_def a h_def)
qed

lemma calculateDistance_kmNorth:
  assumes "0 \<le> km" "km < 12000"
  shows "calculateDistance (point la lo) (point (la + kmNorth km) lo) = km"
proof -
  have "6371 * 2 \<le> 6371 * pi" using pi_ge_two by simp
  then have "km < 6371 * pi" using assms by simp
  then have "km * 180 < 180 * (6371 * pi)" by simp
  then have "km * 180 / (6371 * pi) < 180"
    by (simp add: pos_divide_less_eq)
  moreover have "0 \<le> kmNorth km" using assms by (simp add: kmNorth_def)
  ultimately have "calculateDistance (point la lo) (point (la + kmNorth km) lo) = 6371 * toRad (kmNorth km)"
    by (intro calculateDistance_same_meridian) (simp_all add: kmNorth_def)
  also have "\<dots> = km" by (simp add: toRad_def kmNorth_def)
  finally show ?thesis .
qed

lemma hav_a_lower:
  assumes "\<bar>lat A\<bar> \<le> 90" "\<bar>lat B\<bar> \<le> 90"
  shows "(1 - cos (toRad (lat B - lat A))) / 2 \<le> hav_a A B"
proof -
  have "\<bar>toRad (lat A)\<bar> \<le> pi / 2" "\<bar>toRad (lat B)\<bar> \<le> pi / 2"
    using toRad_mono [OF assms(1)] toRad_mono [OF assms(2)] by (simp_all add: toRad_abs toRad_simps)
  then have "0 \<le> cos (toRad (lat A))" "0 \<le> cos (toRad (lat B))"
    by (auto intro!: cos_ge_zero simp: abs_le_iff)
  then have "0 \<le> (1 - cos (toRad (lng B) - toRad (lng A))) / 2 * (cos (toRad (lat A)) * cos (toRad (lat B)))"
    using cos_le_one [of "toRad (lng B) - toRad (lng A)"] by (intro mult_nonneg_nonneg) auto
  then show ?thesis by (simp add: hav_a_alt toRad_diff)
qed

lemma calculateDistance_ge_hav: "2 * 6371 * hav_a A B \<le> calculateDistance A B"
proof -
  define a where "a = hav_a A B"
  have r: "0 \<le> a" "a \<le> 1" using hav_a_range [of A B] by (simp_all add: a_def)
  then have q: "0 \<le> sqrt a" "sqrt a \<le> 1" by simp_all
  have "sqrt a * sqrt a \<le> 1 * sqrt a"
    using q by (intro mult_right_mono) auto
  then have "a \<le> sqrt a" using r by simp
  moreover have "sqrt a \<le> arcsin (sqrt a)"
  proof -
    have "0 \<le> arcsin (sqrt a)" using q by (simp add: arcsin_nonneg)
    then have "sin (arcsin (sqrt a)) \<le> arcsin (sqrt a)" by (rule sin_x_le_x)
    moreover have "sin (arcsin (sqrt a)) = sqrt a"
      using q by (intro sin_arcsin) linarith+
    ultimately show ?thesis by simp
  qed
  ultimately have "a \<le> arcsin (sqrt a)" by simp
  then show ?thesis by (simp add: calculateDistance_haversine a_def)
qed


lemma calculateDistance_far:
  assumes "\<bar>lat A\<bar> \<le> 90" "\<bar>lat B\<bar> \<le> 90" "60 \<le> \<bar>lat B - lat A\<bar>"
  shows "3185 \<le> calculateDistance A B"
proof -
  define x where "x = \<bar>toRad (lat B - lat A)\<bar>"
  have xe: "x = toRad \<bar>lat B - lat A\<bar>" by (simp add: x_def toRad_def abs_mult)
  have "\<bar>lat B - lat A\<bar> \<le> 180" using assms by (simp add: abs_le_iff)
  from toRad_mono [OF this] toRad_mono [OF assms(3)]
  have x: "pi / 3 \<le> x" "x \<le> pi" by (simp_all add: xe toRad_simps)
  have "cos x \<le> cos (pi / 3)" using x by (intro cos_monotone_0_pi_le) auto
  then have "cos (toRad (lat B - lat A)) \<le> 1 / 2" by (simp add: x_def cos_60)
  then have "1 / 4 \<le> (1 - cos (toRad (lat B - lat A))) / 2" by simp
  also have "\<dots> \<le> hav_a A B" by (rule hav_a_lower [OF assms(1,2)])
  finally have "2 * 6371 * (1 / 4) \<le> 2 * 6371 * hav_a A B" by simp
  then show ?thesis using calculateDistance_ge_hav [of A B] by linarith
qed

section \<open>The primary path\<close>

lemma calculateDistance_point:
  "calculateDistance A B = calculateDistance (point (lat A) (lng A)) (point (lat B) (lng B))"
  by (simp add: calculateDistance_def hav_a_def point_def)

lemma calculateDistance_same_place:
  "lat A = lat B \<Longrightarrow> lng A = lng B \<Longrightarrow> calculateDistance A B = 0"
  using calculateDistance_point [of A B] calculateDistance_point [of B B]
    calculateDistance_self [of B] by simp

lemma placeToStation_distance:
  "distanceKm (placeToStation dest r) = Some (calculateDistance dest (location (placeToStation dest r)))"
  by (cases r) (simp add: placeToStation_def Let_def)

lemma placeToStation_known:
  "s \<in> set (map (placeToStation dest) results) \<Longrightarrow>
     distanceKm s = Some (knownDistance s) \<and> knownDistance s = calculateDistance dest (location s)"
  by (auto simp: placeToStation_distance knownDistance_def)

lemma notFar_known: "distanceKm s = Some (knownDistance s) \<Longrightarrow> notFar s = (knownDistance s < 10)"
  by (cases "distanceKm s") (simp_all add: notFar_def knownDistance_def)

lemma filter_notFar_candidates:
  "filter notFar (map (placeToStation dest) results) =
   filter (\<lambda>s. knownDistance s < 10) (map (placeToStation dest) results)"
  by (rule filter_cong [OF refl]) (simp add: notFar_known placeToStation_known)

lemma primaryStations_sort_key:
  "primaryStations dest results =
     sort_key distanceRank (filter (\<lambda>s. knownDistance s < 10) (map (placeToStation dest) results))"
  by (simp add: primaryStations_def Let_def sort_byDistance filter_notFar_candidates)

lemma primaryStations_mset:
  "mset (primaryStations dest results) =
     mset (filter (\<lambda>s. knownDistance s < 10) (map (placeToStation dest) results))"
  by (simp add: primaryStations_sort_key)

lemma primaryStations_member:
  assumes "s \<in> set (primaryStations dest results)"
  shows "distanceKm s = Some (calculateDistance dest (location s)) \<and> calculateDistance dest (location s) < 10"
proof -
  have "s \<in> set (filter (\<lambda>s. knownDistance s < 10) (map (placeToStation dest) results))"
    using assms by (simp add: primaryStations_sort_key)
  then have "s \<in> set (map (placeToStation dest) results)" "knownDistance s < 10" by simp_all
  then show ?thesis using placeToStation_known [of s dest results] by simp
qed

lemma primaryStations_no_zero:
  assumes "\<forall>s\<in>set (map (placeToStation dest) results). knownDistance s \<noteq> 0"
  shows "primaryStations dest results =
     sort_key knownDistance (filter (\<lambda>s. knownDistance s < 10) (map (placeToStation dest) results))"
proof -
  have "\<forall>s\<in>set (filter (\<lambda>s. knownDistance s < 10) (map (placeToStation dest) results)).
          distanceKm s \<noteq> None \<and> knownDistance s \<noteq> 0"
    using assms placeToStation_known [of _ dest results] by auto
  then show ?thesis
    by (simp add: primaryStations_def Let_def filter_notFar_candidates sort_byDistance_known)
qed

lemma primaryStations_example:
  assumes "map knownDistance (map (placeToStation dest) results) = [2, 15, 4]"
  shows "primaryStations dest results = [placeToStation dest (results ! 0), placeToStation dest (results ! 2)]"
proof -
  from assms obtain r0 r1 r2 where r: "results = [r0, r1, r2]"
    by (auto simp: map_eq_Cons_conv)
  have k: "knownDistance (placeToStation dest r0) = 2" "knownDistance (placeToStation dest r1) = 15"
    "knownDistance (placeToStation dest r2) = 4"
    using assms r by simp_all
  have nz: "\<forall>s\<in>set (map (placeToStation dest) results). knownDistance s \<noteq> 0"
    using k r by simp
  have "primaryStations dest results =
     sort_key knownDistance (filter (\<lambda>s. knownDistance s < 10) (map (placeToStation dest) results))"
    by (rule primaryStations_no_zero [OF nz])
  also have "\<dots> = [placeToStation dest (results ! 0), placeToStation dest (results ! 2)]"
    by (simp add: r k)
  finally show ?thesis .
qed

text \<open>
  C2, amended. For every destination and every list of places, the primary path
  outputs exactly the candidates whose computed distance is strictly below the fixed
  threshold of 10 km (as a multiset: none is lost, none is added, none is changed),
  each with its distance populated. When no candidate is at the distance zero, the
  output is the stable ascending sort by distance of those candidates: it is sorted,
  and the candidates of one distance keep their input order. In particular, candidates
  at the distances 2, 15 and 4 km give the first and the third, in this order.
\<close>

theorem primaryStations_ranking:
  "mset (primaryStations dest results) =
     mset (filter (\<lambda>s. knownDistance s < 10) (map (placeToStation dest) results)) \<and>
   (\<forall>s\<in>set (primaryStations dest results).
      distanceKm s = Some (calculateDistance dest (location s)) \<and>
      calculateDistance dest (location s) < 10) \<and>
   ((\<forall>s\<in>set (map (placeToStation dest) results). knownDistance s \<noteq> 0) \<longrightarrow>
      primaryStations dest results =
        sort_key knownDistance (filter (\<lambda>s. knownDistance s < 10) (map (placeToStation dest) results)) \<and>
      sorted (map knownDistance (primaryStations dest results)) \<and>
      (\<forall>d. filter (\<lambda>s. knownDistance s = d) (primaryStations dest results) =
            filter (\<lambda>s. knownDistance s = d)
              (filter (\<lambda>s. knownDistance s < 10) (map (placeToStation dest) results)))) \<and>
   (map knownDistance (map (placeToStation dest) results) = [2, 15, 4] \<longrightarrow>
      primaryStations dest results = [placeToStation dest (results ! 0), placeToStation dest (results ! 2)] \<and>
      map knownDistance (primaryStations dest results) = [2, 4])"
proof (intro conjI impI ballI)
  show "mset (primaryStations dest results) =
     mset (filter (\<lambda>s. knownDistance s < 10) (map (placeToStation dest) results))"
    by (rule primaryStations_mset)
next
  fix s assume "s \<in> set (primaryStations dest results)"
  then show "distanceKm s = Some (calculateDistance dest (location s))"
    and "calculateDistance dest (location s) < 10"
    using primaryStations_member by blast+
next
  assume nz: "\<forall>s\<in>set (map (placeToStation dest) results). knownDistance s \<noteq> 0"
  show eq: "primaryStations dest results =
        sort_key knownDistance (filter (\<lambda>s. knownDistance s < 10) (map (placeToStation dest) results))"
    by (rule primaryStations_no_zero [OF nz])
  show "sorted (map knownDistance (primaryStations dest results))"
    unfolding eq by (rule sorted_sort_key)
  show "\<forall>d. filter (\<lambda>s. knownDistance s = d) (primaryStations dest results) =
            filter (\<lambda>s. knownDistance s = d)
              (filter (\<lambda>s. knownDistance s < 10) (map (placeToStation dest) results))"
    unfolding eq by (simp only: sort_key_stable) simp
next
  assume ex: "map knownDistance (map (placeToStation dest) results) = [2, 15, 4]"
  show eq: "primaryStations dest results = [placeToStation dest (results ! 0), placeToStation dest (results ! 2)]"
    by (rule primaryStations_example [OF ex])
  from ex have "knownDistance (placeToStation dest (results ! 0)) = 2"
    "knownDistance (placeToStation dest (results ! 2)) = 4"
    by (auto simp: map_eq_Cons_conv)
  then show "map knownDistance (primaryStations dest results) = [2, 4]"
    unfolding eq by simp
qed

lemma placeAt_known:
  "knownDistance (placeToStation (point la lo) (placeAt i la' lo')) =
     calculateDistance (point la lo) (point la' lo')"
  by (simp add: placeToStation_def placeAt_def knownDistance_def Let_def
      calculateDistance_point [of "point la lo" "\<lparr>lat = la', lng = lo', loc_name = Some i\<rparr>"])
     (simp add: point_def)

lemma placeAt_known_north:
  "0 \<le> km \<Longrightarrow> km < 12000 \<Longrightarrow>
     knownDistance (placeToStation (point la lo) (placeAt i (la + kmNorth km) lo)) = km"
  by (simp add: placeAt_known calculateDistance_kmNorth)

lemma placeAt_known_here:
  "knownDistance (placeToStation (point la lo) (placeAt i la lo)) = 0"
  by (simp add: placeAt_known calculateDistance_same_place)

lemma placeAt_id: "i \<noteq> [] \<Longrightarrow> station_id (placeToStation dest (placeAt i la lo)) = i"
  by (simp add: placeToStation_def placeAt_def strOr_def Let_def)

text \<open>
  Three places on the meridian of the destination, 2, 15 and 4 km to the north.
\<close>

theorem primaryStations_ranking_witness:
  "map station_id (primaryStations (point 24 67)
      [placeAt ''a'' (24 + kmNorth 2) 67, placeAt ''b'' (24 + kmNorth 15) 67,
       placeAt ''c'' (24 + kmNorth 4) 67]) = [''a'', ''c''] \<and>
   map knownDistance (primaryStations (point 24 67)
      [placeAt ''a'' (24 + kmNorth 2) 67, placeAt ''b'' (24 + kmNorth 15) 67,
       placeAt ''c'' (24 + kmNorth 4) 67]) = [2, 4] \<and>
   sorted (map knownDistance (primaryStations (point 24 67)
      [placeAt ''a'' (24 + kmNorth 2) 67, placeAt ''b'' (24 + kmNorth 15) 67,
       placeAt ''c'' (24 + kmNorth 4) 67]))"
proof -
  let ?rs = "[placeAt ''a'' (24 + kmNorth 2) 67, placeAt ''b'' (24 + kmNorth 15) 67,
       placeAt ''c'' (24 + kmNorth 4) 67]"
  have ex: "map knownDistance (map (placeToStation (point 24 67)) ?rs) = [2, 15, 4]"
    by (simp add: placeAt_known_north)
  then have nz: "\<forall>s\<in>set (map (placeToStation (point 24 67)) ?rs). knownDistance s \<noteq> 0"
    by (simp add: placeAt_known_north)
  from primaryStations_ranking [of "point 24 67" ?rs] ex nz
  have "primaryStations (point 24 67) ?rs =
          [placeToStation (point 24 67) (?rs ! 0), placeToStation (point 24 67) (?rs ! 2)]"
    and "map knownDistance (primaryStations (point 24 67) ?rs) = [2, 4]"
    and "sorted (map knownDistance (primaryStations (point 24 67) ?rs))"
    by blast+
  then show ?thesis
    by (simp add: placeAt_id)
qed

lemma sort_key_pair:
  fixes k :: "'a \<Rightarrow> 'k::linorder"
  shows "sort_key k [a, b] = (if k a \<le> k b then [a, b] else [b, a])"
  by simp

lemma zero_then_near:
  assumes "0 < km" "km < 10"
  shows "primaryStations (point la lo) [placeAt i la lo, placeAt j (la + kmNorth km) lo] =
           [placeToStation (point la lo) (placeAt j (la + kmNorth km) lo),
            placeToStation (point la lo) (placeAt i la lo)]"
proof -
  let ?here = "placeToStation (point la lo) (placeAt i la lo)"
  let ?near = "placeToStation (point la lo) (placeAt j (la + kmNorth km) lo)"
  have k: "knownDistance ?here = 0" "knownDistance ?near = km"
    using assms by (simp_all add: placeAt_known_here placeAt_known_north)
  have d: "distanceKm ?here = Some 0" "distanceKm ?near = Some km"
    using k placeToStation_known [of ?here "point la lo" "[placeAt i la lo]"]
      placeToStation_known [of ?near "point la lo" "[placeAt j (la + kmNorth km) lo]"]
    by simp_all
  have r: "distanceRank ?here = (True, 0)" "distanceRank ?near = (False, km)"
    using d assms by (simp_all add: distanceRank_def distanceOrInfinity_def)
  show ?thesis
    using assms by (simp add: primaryStations_sort_key k r)
qed

text \<open>
  C2 as stated fails twice. A place at the destination itself (distance zero) comes
  after a place 4 km away, where the ascending sort of the specification puts it first;
  and a place at exactly 10 km, which does not exceed the radius 10, is discarded.
\<close>

theorem primaryStations_counterexample:
  "map knownDistance (primaryStations (point 24 67)
      [placeAt ''here'' 24 67, placeAt ''near'' (24 + kmNorth 4) 67]) = [4, 0] \<and>
   map knownDistance (spec_rankStations 10 (map (placeToStation (point 24 67))
      [placeAt ''here'' 24 67, placeAt ''near'' (24 + kmNorth 4) 67])) = [0, 4] \<and>
   primaryStations (point 24 67) [placeAt ''edge'' (24 + kmNorth 10) 67] = [] \<and>
   map knownDistance (spec_rankStations 10 (map (placeToStation (point 24 67))
      [placeAt ''edge'' (24 + kmNorth 10) 67])) = [10]"
proof -
  let ?here = "placeToStation (point 24 67) (placeAt ''here'' 24 67)"
  let ?near = "placeToStation (point 24 67) (placeAt ''near'' (24 + kmNorth 4) 67)"
  let ?edge = "placeToStation (point 24 67) (placeAt ''edge'' (24 + kmNorth 10) 67)"
  have k: "knownDistance ?here = 0" "knownDistance ?near = 4" "knownDistance ?edge = 10"
    by (simp_all add: placeAt_known_here placeAt_known_north)
  have d: "distanceKm ?here = Some 0" "distanceKm ?near = Some 4" "distanceKm ?edge = Some 10"
    using k placeToStation_known [of ?here "point 24 67" "[placeAt ''here'' 24 67]"]
      placeToStation_known [of ?near "point 24 67" "[placeAt ''near'' (24 + kmNorth 4) 67]"]
      placeToStation_known [of ?edge "point 24 67" "[placeAt ''edge'' (24 + kmNorth 10) 67]"]
    by simp_all
  have "map knownDistance (primaryStations (point 24 67)
      [placeAt ''here'' 24 67, placeAt ''near'' (24 + kmNorth 4) 67]) = [4, 0]"
    using zero_then_near [of 4 24 67 "''here''" "''near''"] k by simp
  moreover have "map knownDistance (spec_rankStations 10 (map (placeToStation (point 24 67))
      [placeAt ''here'' 24 67, placeAt ''near'' (24 + kmNorth 4) 67])) = [0, 4]"
    by (simp add: spec_rankStations_def spec_withinRadius_def d k)
  moreover have "primaryStations (point 24 67) [placeAt ''edge'' (24 + kmNorth 10) 67] = []"
    by (simp add: primaryStations_sort_key k)
  moreover have "map knownDistance (spec_rankStations 10 (map (placeToStation (point 24 67))
      [placeAt ''edge'' (24 + kmNorth 10) 67])) = [10]"
    by (simp add: spec_rankStations_def spec_withinRadius_def d k)
  ultimately show ?thesis by blast
qed

section \<open>The fallback path\<close>

lemma fallbackStations_sort_key:
  "fallbackStations dest = sort_key distanceRank (map (withDistance dest) MOCKED_FUEL_STATIONS)"
  by (simp add: fallbackStations_def sort_byDistance)

lemma fallbackStations_mset:
  "mset (fallbackStations dest) = mset (map (withDistance dest) MOCKED_FUEL_STATIONS)"
  by (simp add: fallbackStations_sort_key)

lemma fallbackStations_length: "length (fallbackStations dest) = 6"
  by (simp add: fallbackStations_sort_key MOCKED_FUEL_STATIONS_def)

lemma withDistance_mock:
  "distanceKm (withDistance dest (mockStation i n la lo nm p)) =
     Some (calculateDistance (point (lat dest) (lng dest)) (point la lo))"
  using calculateDistance_point [of dest "\<lparr>lat = la, lng = lo, loc_name = Some nm\<rparr>"]
  by (simp add: withDistance_def mockStation_def)

lemma mock_far:
  assumes "\<bar>lat dest\<bar> \<le> 90" "\<bar>la\<bar> \<le> 90" "60 \<le> \<bar>la - lat dest\<bar>"
  shows "\<not> notFar (withDistance dest (mockStation i n la lo nm p))"
proof -
  have "3185 \<le> calculateDistance (point (lat dest) (lng dest)) (point la lo)"
    using assms by (intro calculateDistance_far) (simp_all add: point_def)
  then show ?thesis by (simp add: notFar_def withDistance_mock)
qed

text \<open>
  C3: for a destination in Melbourne every mocked station is more than 3000 km away.
  The ranking of the primary path, applied to the mocked stations, discards all six;
  the fallback path returns all six.
\<close>

theorem fallback_keeps_far_stations:
  "length (fallbackStations (point (- 37.8136) 144.9631)) = 6 \<and>
   rankAsPrimary (point (- 37.8136) 144.9631) MOCKED_FUEL_STATIONS = [] \<and>
   fallbackStations (point (- 37.8136) 144.9631) \<noteq>
     rankAsPrimary (point (- 37.8136) 144.9631) MOCKED_FUEL_STATIONS"
proof -
  have l: "length (fallbackStations (point (- 37.8136) 144.9631)) = 6"
    by (rule fallbackStations_length)
  have "filter notFar (map (withDistance (point (- 37.8136) 144.9631)) MOCKED_FUEL_STATIONS) = []"
    by (simp add: MOCKED_FUEL_STATIONS_def mock_far point_def)
  then have e: "rankAsPrimary (point (- 37.8136) 144.9631) MOCKED_FUEL_STATIONS = []"
    by (simp add: rankAsPrimary_def js_sort_def)
  from l e show ?thesis by auto
qed

text \<open>
  The two agree for a destination from which every mocked station is nearer than 10 km.
\<close>

lemma fallback_is_primary_ranking_when_near:
  assumes "\<forall>m\<in>set MOCKED_FUEL_STATIONS. calculateDistance dest (location m) < 10"
  shows "fallbackStations dest = rankAsPrimary dest MOCKED_FUEL_STATIONS"
proof -
  have "filter notFar (map (withDistance dest) MOCKED_FUEL_STATIONS) = map (withDistance dest) MOCKED_FUEL_STATIONS"
    using assms by (auto simp: notFar_def withDistance_def)
  then show ?thesis by (simp add: fallbackStations_def rankAsPrimary_def)
qed

section \<open>A station at distance zero\<close>





section \<open>Monthly expenses\<close>

text \<open>Whatever the comparator, the sort permutes the list.\<close>

lemma mset_js_insert: "mset (js_insert cmp x ys) = add_mset x (mset ys)"
  by (induction ys) simp_all

lemma mset_js_sort: "mset (js_sort cmp xs) = mset xs"
  by (induction xs) (simp_all add: js_sort_def mset_js_insert)

lemma set_js_sort: "set (js_sort cmp xs) = set xs"
  using mset_js_sort [of cmp xs] by (metis set_mset_mset)

text \<open>
  The object after the loop: its keys are the labels of the entries, each once, and the
  value of a key is the sum of the costs of the entries with that label.
\<close>

lemma keys_addMonthly:
  "set (map fst (addMonthly k c monthly)) = insert k (set (map fst monthly))"
proof (induction monthly)
  case Nil
  then show ?case by simp
next
  case (Cons p monthly)
  obtain k' v where p: "p = (k', v)" by (cases p)
  show ?case
  proof (cases "k = k'")
    case True
    then show ?thesis using p by simp
  next
    case False
    then have "set (map fst (addMonthly k c (p # monthly))) =
        insert k' (set (map fst (addMonthly k c monthly)))"
      using p by simp
    also have "\<dots> = insert k' (insert k (set (map fst monthly)))"
      by (simp only: Cons.IH)
    also have "\<dots> = insert k (set (map fst (p # monthly)))"
      using p by (simp add: insert_commute)
    finally show ?thesis .
  qed
qed

lemma distinct_addMonthly:
  "distinct (map fst monthly) \<Longrightarrow> distinct (map fst (addMonthly k c monthly))"
proof (induction monthly)
  case Nil
  then show ?case by simp
next
  case (Cons p monthly)
  obtain k' v where p: "p = (k', v)" by (cases p)
  show ?case
  proof (cases "k = k'")
    case True
    then show ?thesis using Cons.prems p by simp
  next
    case False
    have "k' \<notin> set (map fst (addMonthly k c monthly))"
      using Cons.prems p False by (simp only: keys_addMonthly) simp
    then show ?thesis using Cons p False by simp
  qed
qed

lemma totalOf_addMonthly_same: "totalOf (addMonthly k c monthly) k = totalOf monthly k + c"
proof (induction monthly)
  case Nil
  then show ?case by (simp add: totalOf_def)
next
  case (Cons p monthly)
  obtain k' v where p: "p = (k', v)" by (cases p)
  show ?case
  proof (cases "k = k'")
    case True
    then show ?thesis using p by (simp add: totalOf_def orZero_def)
  next
    case False
    then have "totalOf (addMonthly k c (p # monthly)) k = totalOf (addMonthly k c monthly) k"
      using p by (simp add: totalOf_def)
    also have "\<dots> = totalOf monthly k + c" by (rule Cons.IH)
    also have "totalOf monthly k = totalOf (p # monthly) k"
      using p False by (simp add: totalOf_def)
    finally show ?thesis .
  qed
qed

lemma totalOf_addMonthly_other:
  "k' \<noteq> k \<Longrightarrow> totalOf (addMonthly k c monthly) k' = totalOf monthly k'"
proof (induction monthly)
  case Nil
  then show ?case by (simp add: totalOf_def)
next
  case (Cons p monthly)
  obtain k'' v where p: "p = (k'', v)" by (cases p)
  show ?case
  proof (cases "k = k''")
    case True
    then show ?thesis using p Cons.prems by (simp add: totalOf_def)
  next
    case False
    show ?thesis
    proof (cases "k' = k''")
      case True
      then show ?thesis using p False by (simp add: totalOf_def)
    next
      case ne: False
      then have "totalOf (addMonthly k c (p # monthly)) k' = totalOf (addMonthly k c monthly) k'"
        using p False by (simp add: totalOf_def)
      also have "\<dots> = totalOf monthly k'" using Cons.prems by (rule Cons.IH)
      also have "\<dots> = totalOf (p # monthly) k'" using p ne by (simp add: totalOf_def)
      finally show ?thesis .
    qed
  qed
qed

lemma totalOf_addMonthly:
  "totalOf (addMonthly k c monthly) k' = (if k' = k then totalOf monthly k + c else totalOf monthly k')"
  by (simp add: totalOf_addMonthly_same totalOf_addMonthly_other)

lemma foldl_addMonthly:
  "set (map fst (foldl (\<lambda>monthly trip. addMonthly (lab trip) (entry_estimatedCost trip) monthly) m0 h)) =
     set (map fst m0) \<union> lab ` set h \<and>
   (distinct (map fst m0) \<longrightarrow>
     distinct (map fst (foldl (\<lambda>monthly trip. addMonthly (lab trip) (entry_estimatedCost trip) monthly) m0 h))) \<and>
   totalOf (foldl (\<lambda>monthly trip. addMonthly (lab trip) (entry_estimatedCost trip) monthly) m0 h) k =
     totalOf m0 k + sum_list (map entry_estimatedCost (filter (\<lambda>t. lab t = k) h))"
proof (induction h arbitrary: m0)
  case Nil
  then show ?case by simp
next
  case (Cons t h)
  let ?m1 = "addMonthly (lab t) (entry_estimatedCost t) m0"
  note ih = Cons.IH [of ?m1]
  have 1: "set (map fst ?m1) = insert (lab t) (set (map fst m0))" by (rule keys_addMonthly)
  have 2: "distinct (map fst m0) \<longrightarrow> distinct (map fst ?m1)" using distinct_addMonthly by blast
  have 3: "totalOf ?m1 k = (if k = lab t then totalOf m0 (lab t) + entry_estimatedCost t else totalOf m0 k)"
    by (rule totalOf_addMonthly)
  show ?case
  proof (intro conjI)
    show "set (map fst (foldl (\<lambda>monthly trip. addMonthly (lab trip) (entry_estimatedCost trip) monthly) m0 (t # h))) =
     set (map fst m0) \<union> lab ` set (t # h)"
      using ih 1 by auto
    show "distinct (map fst m0) \<longrightarrow>
     distinct (map fst (foldl (\<lambda>monthly trip. addMonthly (lab trip) (entry_estimatedCost trip) monthly) m0 (t # h)))"
      using ih 2 by simp
    show "totalOf (foldl (\<lambda>monthly trip. addMonthly (lab trip) (entry_estimatedCost trip) monthly) m0 (t # h)) k =
     totalOf m0 k + sum_list (map entry_estimatedCost (filter (\<lambda>t. lab t = k) (t # h)))"
      using ih 3 by auto
  qed
qed

lemma monthlyTotals_keys: "set (map fst (monthlyTotals my h)) = (\<lambda>t. my (date t)) ` set h"
  using foldl_addMonthly [of "\<lambda>t. my (date t)" "[]" h] by (simp add: monthlyTotals_def)

lemma monthlyTotals_distinct: "distinct (map fst (monthlyTotals my h))"
  using foldl_addMonthly [of "\<lambda>t. my (date t)" "[]" h] by (simp add: monthlyTotals_def)

lemma monthlyTotals_total:
  "totalOf (monthlyTotals my h) k = sum_list (map entry_estimatedCost (filter (\<lambda>t. my (date t) = k) h))"
  using foldl_addMonthly [of "\<lambda>t. my (date t)" "[]" h k] by (simp add: monthlyTotals_def totalOf_def)

lemma monthlyTotals_member:
  assumes "(k, v) \<in> set (monthlyTotals my h)"
  shows "v = sum_list (map entry_estimatedCost (filter (\<lambda>t. my (date t) = k) h))"
proof -
  have "map_of (monthlyTotals my h) k = Some v"
    using assms monthlyTotals_distinct [of my h] by simp
  then have "totalOf (monthlyTotals my h) k = v" by (simp add: totalOf_def)
  then show ?thesis by (simp add: monthlyTotals_total)
qed

lemma expenses_mset:
  "mset (calculateMonthlyExpenses my lt h) =
     mset (map (\<lambda>(k, v). \<lparr>month = k, cost = v\<rparr>) (monthlyTotals my h))"
  by (simp add: calculateMonthlyExpenses_def Let_def mset_js_sort)

lemma expenses_months:
  "mset (map month (calculateMonthlyExpenses my lt h)) = mset (map fst (monthlyTotals my h))"
proof -
  have "map month (map (\<lambda>(k, v). \<lparr>month = k, cost = v\<rparr>) (monthlyTotals my h)) = map fst (monthlyTotals my h)"
    by (induction "monthlyTotals my h") auto
  then show ?thesis
    using expenses_mset [of my lt h] by (metis mset_map)
qed

lemma expenses_distinct: "distinct (map month (calculateMonthlyExpenses my lt h))"
  using expenses_months [of my lt h] monthlyTotals_distinct [of my h]
  by (metis mset_eq_imp_distinct_iff)

lemma expenses_labels:
  "set (map month (calculateMonthlyExpenses my lt h)) = (\<lambda>t. my (date t)) ` set h"
  using expenses_months [of my lt h] monthlyTotals_keys [of my h]
  by (metis set_mset_mset)

lemma expenses_cost:
  assumes "e \<in> set (calculateMonthlyExpenses my lt h)"
  shows "cost e = sum_list (map entry_estimatedCost (filter (\<lambda>t. my (date t) = month e) h))"
proof -
  have "e \<in> set (map (\<lambda>(k, v). \<lparr>month = k, cost = v\<rparr>) (monthlyTotals my h))"
    using assms expenses_mset [of my lt h] by (metis set_mset_mset)
  then obtain k v where kv: "(k, v) \<in> set (monthlyTotals my h)" "e = \<lparr>month = k, cost = v\<rparr>"
    by auto
  then show ?thesis using monthlyTotals_member [OF kv(1)] by simp
qed

lemma byLabelTime_finite:
  assumes "lt (month a) = Fin ra" "lt (month b) = Fin rb"
  shows "js_gt (byLabelTime lt a b) (Fin 0) = (finiteValue (lt (month b)) < finiteValue (lt (month a)))"
  using assms by (simp add: byLabelTime_def js_gt_def finiteValue_def)

lemma expenses_sorted:
  assumes "\<forall>t\<in>set h. \<exists>r. lt (my (date t)) = Fin r"
  shows "calculateMonthlyExpenses my lt h =
           sort_key (\<lambda>e. finiteValue (lt (month e)))
             (map (\<lambda>(k, v). \<lparr>month = k, cost = v\<rparr>) (monthlyTotals my h))"
proof -
  let ?xs = "map (\<lambda>(k, v). \<lparr>month = k, cost = v\<rparr>) (monthlyTotals my h)"
  have fin: "\<exists>r. lt (month e) = Fin r" if "e \<in> set ?xs" for e
  proof -
    from that obtain k v where "(k, v) \<in> set (monthlyTotals my h)" "e = \<lparr>month = k, cost = v\<rparr>"
      by auto
    then have "month e \<in> set (map fst (monthlyTotals my h))" by force
    then have "month e \<in> (\<lambda>t. my (date t)) ` set h" by (simp only: monthlyTotals_keys)
    then show ?thesis using assms by auto
  qed
  have "js_sort (byLabelTime lt) ?xs = sort_key (\<lambda>e. finiteValue (lt (month e))) ?xs"
  proof (rule js_sort_sort_key, intro ballI)
    fix x y assume "x \<in> set ?xs" "y \<in> set ?xs"
    then obtain rx ry where "lt (month x) = Fin rx" "lt (month y) = Fin ry"
      using fin by blast
    then show "js_gt (byLabelTime lt x y) (Fin 0) =
        (finiteValue (lt (month y)) < finiteValue (lt (month x)))"
      by (rule byLabelTime_finite)
  qed
  then show ?thesis by (simp add: calculateMonthlyExpenses_def Let_def)
qed

lemma expenses_example:
  assumes my: "my ''2024-01-05'' = ''Jan 2024''" "my ''2024-01-20'' = ''Jan 2024''"
      "my ''2024-02-01'' = ''Feb 2024''"
    and lt: "lt ''Jan 2024'' = Fin t1" "lt ''Feb 2024'' = Fin t2" "t1 < t2"
    and h: "map (\<lambda>t. (date t, entry_estimatedCost t)) h =
              [(''2024-01-05'', 100), (''2024-01-20'', 50), (''2024-02-01'', 75)]"
  shows "calculateMonthlyExpenses my lt h =
           [\<lparr>month = ''Jan 2024'', cost = 150\<rparr>, \<lparr>month = ''Feb 2024'', cost = 75\<rparr>]"
proof -
  from h obtain a b c where abc: "h = [a, b, c]"
    by (auto simp: map_eq_Cons_conv)
  have f: "date a = ''2024-01-05''" "entry_estimatedCost a = 100"
      "date b = ''2024-01-20''" "entry_estimatedCost b = 50"
      "date c = ''2024-02-01''" "entry_estimatedCost c = 75"
    using h abc by simp_all
  have m: "monthlyTotals my h = [(''Jan 2024'', 150), (''Feb 2024'', 75)]"
    by (simp add: monthlyTotals_def abc f my orZero_def)
  show ?thesis
    using lt by (simp add: calculateMonthlyExpenses_def Let_def m js_sort_def byLabelTime_def js_gt_def)
qed

text \<open>
  C6: for every sequence of history entries, in any order, the aggregator produces
  exactly one aggregate for each distinct month and year label of the entries, its cost
  is the sum of the costs of all entries with that label, and, the labels being valid
  (each parses to a time), the output is sorted ascending by the parsed time of the
  label. With the date functions giving the labels \<^verbatim>\<open>Jan 2024\<close> and \<^verbatim>\<open>Feb 2024\<close> to
  the dates of the example, the first before the second, the entries of the example
  give \<^verbatim>\<open>Jan 2024\<close> with 150 and then \<^verbatim>\<open>Feb 2024\<close> with 75.
\<close>

theorem calculateMonthlyExpenses_aggregates:
  "distinct (map month (calculateMonthlyExpenses my lt h)) \<and>
   set (map month (calculateMonthlyExpenses my lt h)) = (\<lambda>t. my (date t)) ` set h \<and>
   (\<forall>e\<in>set (calculateMonthlyExpenses my lt h).
      cost e = sum_list (map entry_estimatedCost (filter (\<lambda>t. my (date t) = month e) h))) \<and>
   ((\<forall>t\<in>set h. \<exists>r. lt (my (date t)) = Fin r) \<longrightarrow>
      sorted (map (\<lambda>e. finiteValue (lt (month e))) (calculateMonthlyExpenses my lt h))) \<and>
   (my ''2024-01-05'' = ''Jan 2024'' \<and> my ''2024-01-20'' = ''Jan 2024'' \<and>
    my ''2024-02-01'' = ''Feb 2024'' \<and>
    lt ''Jan 2024'' = Fin t1 \<and> lt ''Feb 2024'' = Fin t2 \<and> t1 < t2 \<and>
    map (\<lambda>t. (date t, entry_estimatedCost t)) h =
      [(''2024-01-05'', 100), (''2024-01-20'', 50), (''2024-02-01'', 75)] \<longrightarrow>
    calculateMonthlyExpenses my lt h =
      [\<lparr>month = ''Jan 2024'', cost = 150\<rparr>, \<lparr>month = ''Feb 2024'', cost = 75\<rparr>])"
proof (intro conjI impI ballI)
  show "distinct (map month (calculateMonthlyExpenses my lt h))"
    by (rule expenses_distinct)
  show "set (map month (calculateMonthlyExpenses my lt h)) = (\<lambda>t. my (date t)) ` set h"
    by (rule expenses_labels)
next
  fix e assume "e \<in> set (calculateMonthlyExpenses my lt h)"
  then show "cost e = sum_list (map entry_estimatedCost (filter (\<lambda>t. my (date t) = month e) h))"
    by (rule expenses_cost)
next
  assume "\<forall>t\<in>set h. \<exists>r. lt (my (date t)) = Fin r"
  then have "calculateMonthlyExpenses my lt h =
           sort_key (\<lambda>e. finiteValue (lt (month e)))
             (map (\<lambda>(k, v). \<lparr>month = k, cost = v\<rparr>) (monthlyTotals my h))"
    by (rule expenses_sorted)
  then show "sorted (map (\<lambda>e. finiteValue (lt (month e))) (calculateMonthlyExpenses my lt h))"
    by (simp only: sorted_sort_key)
next
  assume a: "my ''2024-01-05'' = ''Jan 2024'' \<and> my ''2024-01-20'' = ''Jan 2024'' \<and>
    my ''2024-02-01'' = ''Feb 2024'' \<and>
    lt ''Jan 2024'' = Fin t1 \<and> lt ''Feb 2024'' = Fin t2 \<and> t1 < t2 \<and>
    map (\<lambda>t. (date t, entry_estimatedCost t)) h =
      [(''2024-01-05'', 100), (''2024-01-20'', 50), (''2024-02-01'', 75)]"
  show "calculateMonthlyExpenses my lt h =
      [\<lparr>month = ''Jan 2024'', cost = 150\<rparr>, \<lparr>month = ''Feb 2024'', cost = 75\<rparr>]"
    by (rule expenses_example) (use a in blast)+
qed

text \<open>
  The example with the date functions of the locale \<^verbatim>\<open>en-US\<close> in UTC, in the order
  of the specification and in the reverse order.
\<close>

theorem calculateMonthlyExpenses_aggregates_witness:
  "calculateMonthlyExpenses enUS_monthYear enUS_labelTime
     [historyEntry ''1'' ''2024-01-05'' 100, historyEntry ''2'' ''2024-01-20'' 50,
      historyEntry ''3'' ''2024-02-01'' 75] =
     [\<lparr>month = ''Jan 2024'', cost = 150\<rparr>, \<lparr>month = ''Feb 2024'', cost = 75\<rparr>] \<and>
   sorted (map (\<lambda>e. finiteValue (enUS_labelTime (month e)))
     (calculateMonthlyExpenses enUS_monthYear enUS_labelTime
       [historyEntry ''1'' ''2024-01-05'' 100, historyEntry ''2'' ''2024-01-20'' 50,
        historyEntry ''3'' ''2024-02-01'' 75])) \<and>
   calculateMonthlyExpenses enUS_monthYear enUS_labelTime
     [historyEntry ''3'' ''2024-02-01'' 75, historyEntry ''2'' ''2024-01-20'' 50,
      historyEntry ''1'' ''2024-01-05'' 100] =
     [\<lparr>month = ''Jan 2024'', cost = 150\<rparr>, \<lparr>month = ''Feb 2024'', cost = 75\<rparr>]"
proof -
  let ?h = "[historyEntry ''1'' ''2024-01-05'' 100, historyEntry ''2'' ''2024-01-20'' 50,
      historyEntry ''3'' ''2024-02-01'' 75]"
  have 1: "enUS_monthYear ''2024-01-05'' = ''Jan 2024'' \<and> enUS_monthYear ''2024-01-20'' = ''Jan 2024'' \<and>
    enUS_monthYear ''2024-02-01'' = ''Feb 2024'' \<and>
    enUS_labelTime ''Jan 2024'' = Fin 1704067200000 \<and> enUS_labelTime ''Feb 2024'' = Fin 1706745600000 \<and>
    (1704067200000 :: real) < 1706745600000 \<and>
    map (\<lambda>t. (date t, entry_estimatedCost t)) ?h =
      [(''2024-01-05'', 100), (''2024-01-20'', 50), (''2024-02-01'', 75)]"
    by (simp add: enUS_monthYear_def enUS_labelTime_def historyEntry_def)
  have 2: "\<forall>t\<in>set ?h. \<exists>r. enUS_labelTime (enUS_monthYear (date t)) = Fin r"
    by (simp add: enUS_monthYear_def enUS_labelTime_def historyEntry_def)
  from calculateMonthlyExpenses_aggregates [of enUS_monthYear enUS_labelTime ?h 1704067200000 1706745600000] 1 2
  have "calculateMonthlyExpenses enUS_monthYear enUS_labelTime ?h =
     [\<lparr>month = ''Jan 2024'', cost = 150\<rparr>, \<lparr>month = ''Feb 2024'', cost = 75\<rparr>]"
    and "sorted (map (\<lambda>e. finiteValue (enUS_labelTime (month e)))
     (calculateMonthlyExpenses enUS_monthYear enUS_labelTime ?h))"
    by blast+
  moreover have "calculateMonthlyExpenses enUS_monthYear enUS_labelTime
     [historyEntry ''3'' ''2024-02-01'' 75, historyEntry ''2'' ''2024-01-20'' 50,
      historyEntry ''1'' ''2024-01-05'' 100] =
     [\<lparr>month = ''Jan 2024'', cost = 150\<rparr>, \<lparr>month = ''Feb 2024'', cost = 75\<rparr>]"
    by (simp add: calculateMonthlyExpenses_def Let_def monthlyTotals_def enUS_monthYear_def
        enUS_labelTime_def historyEntry_def orZero_def js_sort_def byLabelTime_def js_gt_def)
  ultimately show ?thesis by blast
qed

end
